theory Spec2Isabelle
  imports Main
begin

section \<open>Strings: the Python operations used by the locator parser\<close>

text \<open>
  \<^verbatim>\<open>s.replace(old, new)\<close> replaces every occurrence of \<open>old\<close>, scanning from the left
  and never overlapping. For an empty \<open>old\<close> Python puts \<open>new\<close> before every character
  and at the end.
\<close>

function str_replace :: "string \<Rightarrow> string \<Rightarrow> string \<Rightarrow> string" where
  "str_replace old new s =
     (if old = [] then new @ concat (map (\<lambda>c. c # new) s)
      else if s = [] then []
      else if take (length old) s = old then new @ str_replace old new (drop (length old) s)
      else hd s # str_replace old new (tl s))"
  by pat_completeness auto
termination
  by (relation "measure (\<lambda>(old, new, s). length s)") auto

declare str_replace.simps [simp del]

text \<open>\<^verbatim>\<open>s.split(sep)\<close> for a separator of one character; the result is never empty.\<close>

fun str_split :: "char \<Rightarrow> string \<Rightarrow> string list" where
  "str_split sep [] = [[]]"
| "str_split sep (c # cs) =
     (if c = sep then [] # str_split sep cs
      else (case str_split sep cs of
              [] \<Rightarrow> [[c]]
            | w # ws \<Rightarrow> (c # w) # ws))"

definition startswith :: "string \<Rightarrow> string \<Rightarrow> bool" where
  "startswith s pre = (take (length pre) s = pre)"

definition endswith :: "string \<Rightarrow> string \<Rightarrow> bool" where
  "endswith s suf = (length suf \<le> length s \<and> drop (length s - length suf) s = suf)"

section \<open>Object storage: the locator parser\<close>

text \<open>
  \<^verbatim>\<open>bucket = gsPath.replace("gs://", "").split("/")[0]\<close>,
  \<^verbatim>\<open>filePath = gsPath[len(bucket) + 6 :]\<close>. A slice past the end is the empty string.
\<close>

definition extractBucketFile :: "string \<Rightarrow> string \<times> string" where
  "extractBucketFile gsPath =
     (let bucket = hd (str_split CHR ''/'' (str_replace ''gs://'' '''' gsPath));
          filePath = drop (length bucket + 6) gsPath
      in (bucket, filePath))"

section \<open>Exceptions, remote calls and the trace of a call\<close>

text \<open>
  The exception classes the facades tell apart. \<open>AlreadyExists\<close> is a subclass of
  \<open>Conflict\<close> in the client library; \<open>KeyboardInterrupt\<close> is a \<open>BaseException\<close>
  that \<^verbatim>\<open>except Exception\<close> does not catch, while a bare \<^verbatim>\<open>except:\<close> catches it.
\<close>

datatype exc =
    NotFound
  | Conflict
  | AlreadyExists
  | TimeoutError
  | NameError
  | AttributeError
  | IndexError
  | KeyboardInterrupt
  | OtherError string

fun is_Exception :: "exc \<Rightarrow> bool" where
  "is_Exception KeyboardInterrupt = False"
| "is_Exception _ = True"

definition is_Conflict :: "exc \<Rightarrow> bool" where
  "is_Conflict e = (e = Conflict \<or> e = AlreadyExists)"

text \<open>
  The failure class the retry convention retries: any \<open>Exception\<close> that is neither
  "not found" nor "already exists".
\<close>

definition retriable :: "exc \<Rightarrow> bool" where
  "retriable e = (is_Exception e \<and> e \<noteq> NotFound \<and> \<not> is_Conflict e)"

datatype severity = DEBUG | INFO | WARNING | ERROR

datatype schema_field =
  SchemaField (name: string) (field_type: string) (mode: string) (fields: "schema_field list")

text \<open>
  The calls that leave the process (client library, file system). Job configurations
  are handed to the client unchanged and decide no branch, so a request carries the
  identifying arguments only.
\<close>

datatype sdk_call =
    GetBucket string
  | BlobExists string string
  | CopyBlob string string string string
  | DeleteBlob string string
  | RenameBlob string string string
  | GetBlob string string
  | DownloadToFilename string string string
  | UploadFromFilename string string string
  | OsRemove string
  | ListBlobs string string bool
  | CreateTable string string "schema_field list"
  | GetTable string string
  | LoadTableFromUri string string string string
  | OpenFile string
  | LoadTableFromFile string string string string
  | Query string string string string
  | ExtractTable string string string string
  | JobResult string nat
  | GetTopic string
  | CreateTopic string
  | Publish string string string
  | GetSubscription string
  | CreateSubscription string string
  | Subscribe string
  | FutureResult
  | FutureCancel

datatype event = Call sdk_call | Sleep nat | Log severity

text \<open>How the blocking wait on the subscriber's future ends, if it ends.\<close>

datatype wait_outcome = Completes | Fails exc | Never

text \<open>
  The world outside the process. \<open>raises w r k c\<close> says whether the request \<open>c\<close>, made
  at call site \<open>k\<close> of the attempt with retry counter \<open>r\<close>, raises, and what; the other
  fields are the data the services answer with. Writing a log line is taken never to
  fail, and a sleep never to be interrupted.
\<close>

record world =
  raises :: "nat \<Rightarrow> nat \<Rightarrow> sdk_call \<Rightarrow> exc option"
  blob_exists :: "string \<Rightarrow> string \<Rightarrow> bool"
  blob_found :: "nat \<Rightarrow> string \<Rightarrow> string \<Rightarrow> bool"
  blob_names :: "string \<Rightarrow> string \<Rightarrow> bool \<Rightarrow> string list"
  uuid4 :: "nat \<Rightarrow> string"
  job_id_of :: "nat \<Rightarrow> string \<Rightarrow> string"
  job_errors :: "nat \<Rightarrow> string \<Rightarrow> string list option"
  json_dumps :: "(string \<times> string) list \<Rightarrow> string"
  future_result :: wait_outcome

text \<open>
  A statement sequence returns its value or the exception it raised, with the events it
  emitted. \<open>call\<close> is one remote call, \<open>seq\<close> runs the rest only when the first part did
  not raise.
\<close>

type_synonym 'a run = "(exc + 'a) \<times> event list"

definition call :: "world \<Rightarrow> nat \<Rightarrow> nat \<Rightarrow> sdk_call \<Rightarrow> unit run" where
  "call w retry site c =
     (case raises w retry site c of
        None \<Rightarrow> (Inr (), [Call c])
      | Some e \<Rightarrow> (Inl e, [Call c]))"

definition seq :: "'a run \<Rightarrow> ('a \<Rightarrow> 'b run) \<Rightarrow> 'b run" where
  "seq m f =
     (case m of
        (Inl e, ev) \<Rightarrow> (Inl e, ev)
      | (Inr x, ev) \<Rightarrow> (case f x of (r, ev') \<Rightarrow> (r, ev @ ev')))"

definition fails_retriably :: "'a run \<Rightarrow> bool" where
  "fails_retriably m = (case fst m of Inl e \<Rightarrow> retriable e | Inr _ \<Rightarrow> False)"

section \<open>Object-storage facade\<close>

text \<open>
  An argument the docstring declares a \<open>str\<close>: the caller passes a \<open>str\<close>, or a value of
  another type (\<open>None\<close>, an \<open>int\<close>), which has no \<open>replace\<close> and no \<open>encode\<close> method.
\<close>

datatype pyarg = Str string | NotStr



text \<open>\<^verbatim>\<open>move_file_gs\<close>: the try block, then the handlers and the retry.\<close>

definition move_file_gs_attempt :: "world \<Rightarrow> string \<Rightarrow> string \<Rightarrow> bool \<Rightarrow> nat \<Rightarrow> bool run" where
  "move_file_gs_attempt w gsPathIn gsPathOut delete retry =
     (case extractBucketFile gsPathIn of (bucketIn, fileNameIn) \<Rightarrow>
      case extractBucketFile gsPathOut of (bucketOut, fileNameOut) \<Rightarrow>
        seq (call w retry 0 (GetBucket bucketIn)) (\<lambda>_.
        seq (call w retry 1 (GetBucket bucketOut)) (\<lambda>_.
        seq (call w retry 2 (CopyBlob bucketIn fileNameIn bucketOut fileNameOut)) (\<lambda>_.
          if delete
          then seq (call w retry 3 (DeleteBlob bucketIn fileNameIn)) (\<lambda>_.
                 (Inr True, [Log INFO, Log INFO]))
          else (Inr True, [Log INFO])))))"

function move_file_gs :: "world \<Rightarrow> string \<Rightarrow> string \<Rightarrow> bool \<Rightarrow> nat \<Rightarrow> bool run" where
  "move_file_gs w gsPathIn gsPathOut delete retry =
     (case move_file_gs_attempt w gsPathIn gsPathOut delete retry of
        (Inr v, ev) \<Rightarrow> (Inr v, ev)
      | (Inl e, ev) \<Rightarrow>
          if e = NotFound then (Inr False, ev @ [Log WARNING])
          else if is_Exception e then
            (if retry < 3
             then (case move_file_gs w gsPathIn gsPathOut delete (retry + 1) of
                     (r, ev') \<Rightarrow> (r, ev @ [Log WARNING, Sleep 3] @ ev'))
             else (Inr False, ev @ [Log ERROR]))
          else (Inl e, ev))"
  by pat_completeness auto
termination
  by (relation "measure (\<lambda>(w, gsPathIn, gsPathOut, delete, retry). 3 - retry)") auto

declare move_file_gs.simps [simp del]

definition copy_file_gs :: "world \<Rightarrow> string \<Rightarrow> string \<Rightarrow> bool run" where
  "copy_file_gs w gsPathIn gsPathOut = move_file_gs w gsPathIn gsPathOut False 0"

text \<open>
  \<^verbatim>\<open>rename_gs\<close> returns the new locator, or \<open>False\<close> (here \<open>None\<close>) after one ERROR
  line; it has no retry and no handler for \<open>NotFound\<close> of its own.
\<close>

definition rename_gs_attempt :: "world \<Rightarrow> string \<Rightarrow> string \<Rightarrow> string run" where
  "rename_gs_attempt w gsPath newName =
     (case extractBucketFile gsPath of (bucketName, fileName) \<Rightarrow>
        seq (call w 0 0 (GetBucket bucketName)) (\<lambda>_.
        seq (call w 0 1 (RenameBlob bucketName fileName newName)) (\<lambda>_.
          (Inr (''gs://'' @ bucketName @ ''/'' @ newName), [Log INFO]))))"

definition rename_gs :: "world \<Rightarrow> string \<Rightarrow> string \<Rightarrow> string option run" where
  "rename_gs w gsPath newName =
     (case rename_gs_attempt w gsPath newName of
        (Inr outputGsPath, ev) \<Rightarrow> (Inr (Some outputGsPath), ev)
      | (Inl e, ev) \<Rightarrow>
          if is_Exception e then (Inr None, ev @ [Log ERROR]) else (Inl e, ev))"

text \<open>
  \<^verbatim>\<open>download_file_from_gs\<close>: \<open>get_blob\<close> answers \<open>None\<close> for a missing object, and the
  method call on \<open>None\<close> is an \<open>AttributeError\<close>.
\<close>

definition download_file_from_gs_attempt :: "world \<Rightarrow> string \<Rightarrow> string \<Rightarrow> nat \<Rightarrow> bool run" where
  "download_file_from_gs_attempt w gsPath localPath retry =
     (case extractBucketFile gsPath of (bucketName, fileName) \<Rightarrow>
        seq (call w retry 0 (GetBucket bucketName)) (\<lambda>_.
        seq (call w retry 1 (GetBlob bucketName fileName)) (\<lambda>_.
          if blob_found w retry bucketName fileName
          then seq (call w retry 2 (DownloadToFilename bucketName fileName localPath)) (\<lambda>_.
                 (Inr True, [Log INFO]))
          else (Inl AttributeError, []))))"

function download_file_from_gs :: "world \<Rightarrow> string \<Rightarrow> string \<Rightarrow> nat \<Rightarrow> bool run" where
  "download_file_from_gs w gsPath localPath retry =
     (case download_file_from_gs_attempt w gsPath localPath retry of
        (Inr v, ev) \<Rightarrow> (Inr v, ev)
      | (Inl e, ev) \<Rightarrow>
          if e = NotFound then (Inr False, ev @ [Log WARNING])
          else if is_Exception e then
            (if retry < 3
             then (case download_file_from_gs w gsPath localPath (retry + 1) of
                     (r, ev') \<Rightarrow> (r, ev @ [Log WARNING, Sleep 3] @ ev'))
             else (Inr False, ev @ [Log ERROR]))
          else (Inl e, ev))"
  by pat_completeness auto
termination
  by (relation "measure (\<lambda>(w, gsPath, localPath, retry). 3 - retry)") auto

declare download_file_from_gs.simps [simp del]

text \<open>\<^verbatim>\<open>upload_file_to_gs\<close> has the general handler only.\<close>

definition upload_file_to_gs_attempt :: "world \<Rightarrow> string \<Rightarrow> string \<Rightarrow> bool \<Rightarrow> nat \<Rightarrow> bool run" where
  "upload_file_to_gs_attempt w localPath gsPath delete retry =
     (case extractBucketFile gsPath of (bucketName, fileName) \<Rightarrow>
        seq (call w retry 0 (GetBucket bucketName)) (\<lambda>_.
        seq (call w retry 1 (UploadFromFilename bucketName fileName localPath)) (\<lambda>_.
          if delete
          then seq (call w retry 2 (OsRemove localPath)) (\<lambda>_.
                 (Inr True, [Log INFO, Log INFO]))
          else (Inr True, [Log INFO]))))"

function upload_file_to_gs :: "world \<Rightarrow> string \<Rightarrow> string \<Rightarrow> bool \<Rightarrow> nat \<Rightarrow> bool run" where
  "upload_file_to_gs w localPath gsPath delete retry =
     (case upload_file_to_gs_attempt w localPath gsPath delete retry of
        (Inr v, ev) \<Rightarrow> (Inr v, ev)
      | (Inl e, ev) \<Rightarrow>
          if is_Exception e then
            (if retry < 3
             then (case upload_file_to_gs w localPath gsPath delete (retry + 1) of
                     (r, ev') \<Rightarrow> (r, ev @ [Log WARNING, Sleep 3] @ ev'))
             else (Inr False, ev @ [Log ERROR]))
          else (Inl e, ev))"
  by pat_completeness auto
termination
  by (relation "measure (\<lambda>(w, localPath, gsPath, delete, retry). 3 - retry)") auto

declare upload_file_to_gs.simps [simp del]



text \<open>\<^verbatim>\<open>delete_file_from_gs\<close>: the retry ceiling is 2.\<close>

definition delete_file_from_gs_attempt :: "world \<Rightarrow> string \<Rightarrow> nat \<Rightarrow> bool run" where
  "delete_file_from_gs_attempt w gsPath retry =
     (case extractBucketFile gsPath of (bucketName, fileName) \<Rightarrow>
        seq (call w retry 0 (GetBucket bucketName)) (\<lambda>_.
        seq (call w retry 1 (DeleteBlob bucketName fileName)) (\<lambda>_.
          (Inr True, [Log INFO]))))"

function delete_file_from_gs :: "world \<Rightarrow> string \<Rightarrow> nat \<Rightarrow> bool run" where
  "delete_file_from_gs w gsPath retry =
     (case delete_file_from_gs_attempt w gsPath retry of
        (Inr v, ev) \<Rightarrow> (Inr v, ev)
      | (Inl e, ev) \<Rightarrow>
          if e = NotFound then (Inr False, ev @ [Log WARNING])
          else if is_Exception e then
            (if retry < 2
             then (case delete_file_from_gs w gsPath (retry + 1) of
                     (r, ev') \<Rightarrow> (r, ev @ [Log WARNING, Sleep 3] @ ev'))
             else (Inr False, ev @ [Log ERROR]))
          else (Inl e, ev))"
  by pat_completeness auto
termination
  by (relation "measure (\<lambda>(w, gsPath, retry). 2 - retry)") auto

declare delete_file_from_gs.simps [simp del]

section \<open>Warehouse facade\<close>

text \<open>
  The confirmation loop of \<^verbatim>\<open>createwait_table\<close>:
  \<^verbatim>\<open>while not tableExist: try: get_table(...) except: time.sleep(5)\<close>. The bare
  \<^verbatim>\<open>except:\<close> catches everything, and nothing bounds the number of checks, so the loop
  is a partial function: \<open>None\<close> is "never returns". Check number \<open>k\<close> is call site
  \<open>Suc k\<close> of the attempt.
\<close>

partial_function (option) wait_table :: "world \<Rightarrow> nat \<Rightarrow> string \<Rightarrow> string \<Rightarrow> nat \<Rightarrow> event list option" where
  "wait_table w retry dataset_name table_name k =
     (if raises w retry (Suc k) (GetTable dataset_name table_name) = None
      then Some [Call (GetTable dataset_name table_name)]
      else Option.bind (wait_table w retry dataset_name table_name (Suc k))
             (\<lambda>ev. Some ([Call (GetTable dataset_name table_name), Sleep 5] @ ev)))"

definition createwait_table_attempt ::
  "world \<Rightarrow> string \<Rightarrow> string \<Rightarrow> schema_field list \<Rightarrow> nat \<Rightarrow> bool run option" where
  "createwait_table_attempt w dataset_name table_name schema_bq retry =
     (case call w retry 0 (CreateTable dataset_name table_name schema_bq) of
        (Inl e, ev) \<Rightarrow> Some (Inl e, ev)
      | (Inr _, ev) \<Rightarrow>
          (case wait_table w retry dataset_name table_name 0 of
             None \<Rightarrow> None
           | Some ev' \<Rightarrow> Some (Inr True, ev @ ev' @ [Log INFO])))"

function createwait_table ::
  "world \<Rightarrow> string \<Rightarrow> string \<Rightarrow> schema_field list \<Rightarrow> nat \<Rightarrow> bool run option" where
  "createwait_table w dataset_name table_name schema_bq retry =
     (case createwait_table_attempt w dataset_name table_name schema_bq retry of
        None \<Rightarrow> None
      | Some (Inr v, ev) \<Rightarrow> Some (Inr v, ev)
      | Some (Inl e, ev) \<Rightarrow>
          if is_Conflict e then Some (Inr True, ev @ [Log INFO])
          else if is_Exception e then
            (if retry < 3
             then (case createwait_table w dataset_name table_name schema_bq (retry + 1) of
                     None \<Rightarrow> None
                   | Some (r, ev') \<Rightarrow> Some (r, ev @ [Log WARNING, Sleep 5] @ ev'))
             else Some (Inr False, ev @ [Log ERROR]))
          else Some (Inl e, ev))"
  by pat_completeness auto
termination
  by (relation "measure (\<lambda>(w, dataset_name, table_name, schema_bq, retry). 3 - retry)") auto

declare createwait_table.simps [simp del]




text \<open>
  \<^verbatim>\<open>build_schema_from_dict\<close>. A dictionary is the list of its items in insertion order.
  The test \<^verbatim>\<open>isinstance(v, str) or isinstance(v, unicode)\<close> reads the name \<open>unicode\<close> only
  when \<open>v\<close> is not a \<open>str\<close>. The module uses f-strings, so it runs on Python 3, where no
  builtin of that name exists: reading it raises \<open>NameError\<close>. \<open>unicode_defined\<close> says
  whether something has bound the name (to a text type, of which no value that is not a
  \<open>str\<close> is an instance). In the list branch the recursive call receives the list \<open>v\<close>
  itself, as the source has it.
\<close>

datatype pyval = PStr string | PDict "(string \<times> pyval) list" | PList "pyval list" | PNone

function build_schema_from_dict :: "bool \<Rightarrow> pyval \<Rightarrow> string \<Rightarrow> schema_field list run"
  and schema_items ::
    "bool \<Rightarrow> (string \<times> pyval) list \<Rightarrow> string \<Rightarrow> schema_field list \<Rightarrow>
       exc option \<times> schema_field list \<times> event list"
  and schema_vals ::
    "bool \<Rightarrow> string \<Rightarrow> pyval list \<Rightarrow> pyval list \<Rightarrow> string \<Rightarrow> schema_field list \<Rightarrow>
       exc option \<times> schema_field list \<times> event list"
where
  "build_schema_from_dict unicode_defined schema_dict mode_fields =
     (case schema_dict of
        PDict items \<Rightarrow>
          (case schema_items unicode_defined items mode_fields [] of
             (None, schema_bq, ev) \<Rightarrow> (Inr schema_bq, ev @ [Log INFO])
           | (Some e, schema_bq, ev) \<Rightarrow>
               if is_Exception e then (Inr schema_bq, ev @ [Log ERROR]) else (Inl e, ev))
      | _ \<Rightarrow> (Inr [], [Log ERROR]))"
| "schema_items unicode_defined [] mode_fields schema_bq = (None, schema_bq, [])"
| "schema_items unicode_defined ((k, v) # rest) mode_fields schema_bq =
     (case v of
        PStr t \<Rightarrow>
          schema_items unicode_defined rest mode_fields (schema_bq @ [SchemaField k t mode_fields []])
      | _ \<Rightarrow>
          if \<not> unicode_defined then (Some NameError, schema_bq, [])
          else
            (case v of
               PDict d \<Rightarrow>
                 (case build_schema_from_dict unicode_defined v mode_fields of
                    (Inl e, ev) \<Rightarrow> (Some e, schema_bq, ev)
                  | (Inr sub, ev) \<Rightarrow>
                      (case schema_items unicode_defined rest mode_fields
                              (schema_bq @ [SchemaField k ''RECORD'' ''NULLABLE'' sub]) of
                         (r, schema_bq', ev') \<Rightarrow> (r, schema_bq', ev @ ev')))
             | PList vals \<Rightarrow>
                 (case schema_vals unicode_defined k vals vals mode_fields schema_bq of
                    (Some e, schema_bq', ev) \<Rightarrow> (Some e, schema_bq', ev)
                  | (None, schema_bq', ev) \<Rightarrow>
                      (case schema_items unicode_defined rest mode_fields schema_bq' of
                         (r, schema_bq'', ev') \<Rightarrow> (r, schema_bq'', ev @ ev')))
             | _ \<Rightarrow>
                 (case schema_items unicode_defined rest mode_fields schema_bq of
                    (r, schema_bq', ev') \<Rightarrow> (r, schema_bq', [Log ERROR] @ ev'))))"
| "schema_vals unicode_defined k v [] mode_fields schema_bq = (None, schema_bq, [])"
| "schema_vals unicode_defined k v (val # vals) mode_fields schema_bq =
     (case val of
        PStr t \<Rightarrow>
          schema_vals unicode_defined k v vals mode_fields (schema_bq @ [SchemaField k t ''REPEATED'' []])
      | _ \<Rightarrow>
          if \<not> unicode_defined then (Some NameError, schema_bq, [])
          else
            (case build_schema_from_dict unicode_defined (PList v) mode_fields of
               (Inl e, ev) \<Rightarrow> (Some e, schema_bq, ev)
             | (Inr sub, ev) \<Rightarrow>
                 (case schema_vals unicode_defined k v vals mode_fields
                         (schema_bq @ [SchemaField k ''RECORD'' ''REPEATED'' sub]) of
                    (r, schema_bq', ev') \<Rightarrow> (r, schema_bq', ev @ ev'))))"
  by pat_completeness auto
termination
  by (relation "inv_image (less_than <*lex*> less_than) (\<lambda>x. case x of
        Inl (u, d, m) \<Rightarrow> (size d, 0)
      | Inr (Inl (u, items, m, acc)) \<Rightarrow> (size_list (size_prod (\<lambda>_. 0) size) items, 0)
      | Inr (Inr (u, k, v, vals, m, acc)) \<Rightarrow> (size (PList v), Suc (length vals)))") auto

declare build_schema_from_dict.simps [simp del]

text \<open>
  The three job operations. The job identifier is built from the names and a fresh
  UUID; the wait \<^verbatim>\<open>job.result(timeout=self.timeout)\<close> has a handler of its own for
  \<^verbatim>\<open>concurrent.futures.TimeoutError\<close>, after which the code goes on as after a wait
  that returned. \<open>timeout\<close> is the facade's field; the job configuration (format,
  delimiters, write disposition, schema) is set on the request and decides no branch,
  so it is left out. The result is the pair \<open>(job_id, job.errors)\<close>, or \<open>(None, None)\<close>.
\<close>

definition job_name :: "string \<Rightarrow> string \<Rightarrow> string \<Rightarrow> string \<Rightarrow> string" where
  "job_name dataset_name table_name kind uuid =
     dataset_name @ ''_'' @ table_name @ ''_'' @ kind @ ''-'' @ uuid"

definition wait_job :: "world \<Rightarrow> nat \<Rightarrow> nat \<Rightarrow> string \<Rightarrow> nat \<Rightarrow> (string \<times> string list option) run" where
  "wait_job w retry site job_id timeout =
     (case call w retry site (JobResult job_id timeout) of
        (Inl e, ev) \<Rightarrow>
          if e = TimeoutError
          then (Inr (job_id, job_errors w retry job_id), ev @ [Log WARNING, Log INFO])
          else (Inl e, ev)
      | (Inr _, ev) \<Rightarrow> (Inr (job_id, job_errors w retry job_id), ev @ [Log INFO]))"

definition load_table :: "world \<Rightarrow> nat \<Rightarrow> string \<Rightarrow> string \<Rightarrow> string \<Rightarrow> string \<Rightarrow> unit run" where
  "load_table w retry file_path dataset_name table_name job_id =
     (if take 3 file_path = ''gs:''
      then call w retry 0 (LoadTableFromUri file_path dataset_name table_name job_id)
      else seq (call w retry 1 (OpenFile file_path)) (\<lambda>_.
             call w retry 2 (LoadTableFromFile file_path dataset_name table_name job_id)))"

definition insert_file_attempt ::
  "world \<Rightarrow> nat \<Rightarrow> string \<Rightarrow> string \<Rightarrow> string \<Rightarrow> nat \<Rightarrow> (string \<times> string list option) run" where
  "insert_file_attempt w timeout file_path dataset_name table_name retry =
     (let job_id = job_name dataset_name table_name ''loadFile'' (uuid4 w retry) in
      seq (load_table w retry file_path dataset_name table_name job_id)
        (\<lambda>_. wait_job w retry 3 (job_id_of w retry job_id) timeout))"

function insert_file ::
  "world \<Rightarrow> nat \<Rightarrow> string \<Rightarrow> string \<Rightarrow> string \<Rightarrow> nat \<Rightarrow> (string option \<times> string list option) run" where
  "insert_file w timeout file_path dataset_name table_name retry =
     (case insert_file_attempt w timeout file_path dataset_name table_name retry of
        (Inr (job_id, errors), ev) \<Rightarrow> (Inr (Some job_id, errors), ev)
      | (Inl e, ev) \<Rightarrow>
          if is_Exception e then
            (if retry < 3
             then (case insert_file w timeout file_path dataset_name table_name (retry + 1) of
                     (r, ev') \<Rightarrow> (r, ev @ [Log WARNING, Sleep 5] @ ev'))
             else (Inr (None, None), ev @ [Log ERROR]))
          else (Inl e, ev))"
  by pat_completeness auto
termination
  by (relation "measure (\<lambda>(w, timeout, file_path, dataset_name, table_name, retry). 3 - retry)") auto

declare insert_file.simps [simp del]

definition run_queryjob_attempt ::
  "world \<Rightarrow> nat \<Rightarrow> string \<Rightarrow> string \<Rightarrow> string \<Rightarrow> nat \<Rightarrow> (string \<times> string list option) run" where
  "run_queryjob_attempt w timeout dataset_name table_name query retry =
     (let job_id = job_name dataset_name table_name ''fromQuery'' (uuid4 w retry) in
      seq (call w retry 0 (Query job_id query dataset_name table_name))
        (\<lambda>_. wait_job w retry 1 job_id timeout))"

function run_queryjob ::
  "world \<Rightarrow> nat \<Rightarrow> string \<Rightarrow> string \<Rightarrow> string \<Rightarrow> nat \<Rightarrow> (string option \<times> string list option) run" where
  "run_queryjob w timeout dataset_name table_name query retry =
     (case run_queryjob_attempt w timeout dataset_name table_name query retry of
        (Inr (job_id, errors), ev) \<Rightarrow> (Inr (Some job_id, errors), ev)
      | (Inl e, ev) \<Rightarrow>
          if is_Exception e then
            (if retry < 3
             then (case run_queryjob w timeout dataset_name table_name query (retry + 1) of
                     (r, ev') \<Rightarrow> (r, ev @ [Log WARNING, Sleep 5] @ ev'))
             else (Inr (None, None), ev @ [Log ERROR]))
          else (Inl e, ev))"
  by pat_completeness auto
termination
  by (relation "measure (\<lambda>(w, timeout, dataset_name, table_name, query, retry). 3 - retry)") auto

declare run_queryjob.simps [simp del]

definition run_extractjob_attempt ::
  "world \<Rightarrow> nat \<Rightarrow> string \<Rightarrow> string \<Rightarrow> string \<Rightarrow> nat \<Rightarrow> (string \<times> string list option) run" where
  "run_extractjob_attempt w timeout destination_uris dataset_name table_name retry =
     (let job_id = job_name dataset_name table_name ''extractTable'' (uuid4 w retry) in
      seq (call w retry 0 (ExtractTable dataset_name table_name destination_uris job_id))
        (\<lambda>_. wait_job w retry 1 job_id timeout))"

function run_extractjob ::
  "world \<Rightarrow> nat \<Rightarrow> string \<Rightarrow> string \<Rightarrow> string \<Rightarrow> nat \<Rightarrow> (string option \<times> string list option) run" where
  "run_extractjob w timeout destination_uris dataset_name table_name retry =
     (case run_extractjob_attempt w timeout destination_uris dataset_name table_name retry of
        (Inr (job_id, errors), ev) \<Rightarrow> (Inr (Some job_id, errors), ev)
      | (Inl e, ev) \<Rightarrow>
          if is_Exception e then
            (if retry < 3
             then (case run_extractjob w timeout destination_uris dataset_name table_name (retry + 1) of
                     (r, ev') \<Rightarrow> (r, ev @ [Log WARNING, Sleep 5] @ ev'))
             else (Inr (None, None), ev @ [Log ERROR]))
          else (Inl e, ev))"
  by pat_completeness auto
termination
  by (relation "measure (\<lambda>(w, timeout, destination_uris, dataset_name, table_name, retry). 3 - retry)") auto

declare run_extractjob.simps [simp del]

section \<open>Publisher and subscriber facades\<close>

text \<open>The client library's resource names.\<close>

definition topic_path :: "string \<Rightarrow> string \<Rightarrow> string" where
  "topic_path project_id topic_name = ''projects/'' @ project_id @ ''/topics/'' @ topic_name"

definition subscription_path :: "string \<Rightarrow> string \<Rightarrow> string" where
  "subscription_path project_id subscription_name =
     ''projects/'' @ project_id @ ''/subscriptions/'' @ subscription_name"

text \<open>
  \<^verbatim>\<open>try: get_topic(topic_path) except: create_topic(topic_path)\<close>. The bare handler takes
  every failure of the lookup; the creation in the handler has no handler around it.
\<close>

definition ensure_topic :: "world \<Rightarrow> nat \<Rightarrow> string \<Rightarrow> unit run" where
  "ensure_topic w retry path =
     (case call w retry 0 (GetTopic path) of
        (Inr _, ev) \<Rightarrow> (Inr (), ev)
      | (Inl _, ev) \<Rightarrow>
          (case call w retry 1 (CreateTopic path) of (r, ev') \<Rightarrow> (r, ev @ ev')))"

text \<open>
  The argument \<open>attributes\<close> of \<^verbatim>\<open>publish\<close>: a dictionary, or a value that is not one. A
  value of the dictionary is a string, or an object that \<^verbatim>\<open>json.dumps\<close> cannot
  serialise (a \<open>set\<close>, a \<open>bytes\<close>, a \<open>datetime\<close>): then \<^verbatim>\<open>json.dumps\<close> raises \<open>TypeError\<close>.
\<close>

datatype attr_value = Plain string | Opaque

datatype attributes = AttrDict "(string \<times> attr_value) list" | NotDict

fun is_Plain :: "attr_value \<Rightarrow> bool" where
  "is_Plain (Plain _) = True"
| "is_Plain Opaque = False"

fun plain_text :: "attr_value \<Rightarrow> string" where
  "plain_text (Plain s) = s"
| "plain_text Opaque = []"

text \<open>
  \<^verbatim>\<open>message.encode("utf-8")\<close>: a value that is not a \<open>str\<close> has no such method. The bytes
  are kept as the text they encode; a \<open>string\<close> here has no lone surrogate, the one
  content of a \<open>str\<close> for which the encoding raises.
\<close>

definition encode_utf8 :: "pyarg \<Rightarrow> exc + string" where
  "encode_utf8 message = (case message of Str s \<Rightarrow> Inr s | NotStr \<Rightarrow> Inl AttributeError)"

definition dumps :: "world \<Rightarrow> (string \<times> attr_value) list \<Rightarrow> exc + string" where
  "dumps w d =
     (if list_all (\<lambda>kv. is_Plain (snd kv)) d
      then Inr (json_dumps w (map (\<lambda>kv. (fst kv, plain_text (snd kv))) d))
      else Inl (OtherError ''TypeError''))"

text \<open>
  \<^verbatim>\<open>publish\<close>. \<open>publish_payload\<close> is lines 27 to 32 of the source: the message is encoded,
  and the attributes are serialised, or replaced by the empty string after one ERROR
  line when they are not a dictionary. \<open>publish_setup\<close> is everything before the try
  block: the lookup or creation of the topic, the DEBUG line, the payload. None of it is
  guarded. \<open>publish_try\<close> is the try block: only the call that publishes is guarded. A
  retry runs the whole function again.
\<close>

definition publish_payload :: "world \<Rightarrow> pyarg \<Rightarrow> attributes \<Rightarrow> (string \<times> string) run" where
  "publish_payload w message attributes =
     seq (encode_utf8 message, []) (\<lambda>data.
       (case attributes of
          AttrDict d \<Rightarrow> seq (dumps w d, []) (\<lambda>attrs. (Inr (data, attrs), []))
        | NotDict \<Rightarrow> (Inr (data, ''''), [Log ERROR])))"

definition publish_setup ::
  "world \<Rightarrow> string \<Rightarrow> string \<Rightarrow> pyarg \<Rightarrow> attributes \<Rightarrow> nat \<Rightarrow> (string \<times> string) run" where
  "publish_setup w project_id topic_name message attributes retry =
     seq (ensure_topic w retry (topic_path project_id topic_name)) (\<lambda>_.
     seq (Inr (), [Log DEBUG]) (\<lambda>_.
       publish_payload w message attributes))"

definition publish_try :: "world \<Rightarrow> string \<Rightarrow> string \<Rightarrow> string \<Rightarrow> string \<Rightarrow> nat \<Rightarrow> bool run" where
  "publish_try w project_id topic_name data attrs retry =
     seq (call w retry 2 (Publish (topic_path project_id topic_name) data attrs)) (\<lambda>_.
       (Inr True, [Log INFO]))"

function publish ::
  "world \<Rightarrow> string \<Rightarrow> string \<Rightarrow> pyarg \<Rightarrow> attributes \<Rightarrow> nat \<Rightarrow> bool run" where
  "publish w project_id topic_name message attributes retry =
     (case publish_setup w project_id topic_name message attributes retry of
        (Inl e, ev) \<Rightarrow> (Inl e, ev)
      | (Inr (data, attrs), ev) \<Rightarrow>
          (case publish_try w project_id topic_name data attrs retry of
             (Inr v, ev1) \<Rightarrow> (Inr v, ev @ ev1)
           | (Inl e, ev1) \<Rightarrow>
               if is_Exception e then
                 (if retry < 2
                  then (case publish w project_id topic_name message attributes (retry + 1) of
                          (r, ev') \<Rightarrow> (r, ev @ ev1 @ [Log ERROR, Sleep 10] @ ev'))
                  else (Inr False, ev @ ev1 @ [Log ERROR]))
               else (Inl e, ev @ ev1)))"
  by pat_completeness auto
termination
  by (relation "measure (\<lambda>(w, project_id, topic_name, message, attributes, retry). 2 - retry)") auto

declare publish.simps [simp del]

text \<open>
  \<^verbatim>\<open>subscribe\<close>. In the handler of the failed lookup the code reads the name
  \<open>publisher_client\<close>, which is neither a parameter nor a name the module binds when it
  is imported (only the script guard binds it): \<open>publisher_client_defined\<close> says whether
  the caller's process has bound it in the module, and reading it unbound raises
  \<open>NameError\<close>. The callback is handed to the client library. The call ends by
  returning, by raising, or not at all.
\<close>

datatype 'a outcome = Returns 'a | Raises exc | BlocksForever

definition ensure_subscription :: "bool \<Rightarrow> world \<Rightarrow> string \<Rightarrow> string \<Rightarrow> string \<Rightarrow> unit run" where
  "ensure_subscription publisher_client_defined w project_id topic_name path =
     (case call w 0 0 (GetSubscription path) of
        (Inr _, ev) \<Rightarrow> (Inr (), ev)
      | (Inl _, ev) \<Rightarrow>
          if \<not> publisher_client_defined then (Inl NameError, ev)
          else (case call w 0 1 (CreateSubscription path (topic_path project_id topic_name)) of
                  (r, ev') \<Rightarrow> (r, ev @ ev')))"

definition subscribe ::
  "bool \<Rightarrow> world \<Rightarrow> string \<Rightarrow> string \<Rightarrow> string \<Rightarrow> unit outcome \<times> event list" where
  "subscribe publisher_client_defined w project_id topic_name subscription_name =
     (let path = subscription_path project_id subscription_name in
      case ensure_subscription publisher_client_defined w project_id topic_name path of
        (Inl e, ev) \<Rightarrow> (Raises e, ev)
      | (Inr _, ev) \<Rightarrow>
          (case call w 0 2 (Subscribe path) of
             (Inl e, ev1) \<Rightarrow> (Raises e, ev @ [Log DEBUG] @ ev1)
           | (Inr _, ev1) \<Rightarrow>
               (let ev2 = ev @ [Log DEBUG] @ ev1 @ [Call FutureResult] in
                case future_result w of
                  Never \<Rightarrow> (BlocksForever, ev2)
                | Completes \<Rightarrow> (Returns (), ev2)
                | Fails e \<Rightarrow>
                    if e = KeyboardInterrupt
                    then (case call w 0 3 FutureCancel of
                            (Inl e', ev3) \<Rightarrow> (Raises e', ev2 @ ev3)
                          | (Inr _, ev3) \<Rightarrow> (Returns (), ev2 @ ev3))
                    else (Raises e, ev2))))"

section \<open>Reading a trace, and worlds to run the code in\<close>

text \<open>
  The trace the retry convention prescribes when every attempt fails: the attempts with
  retry counter \<open>0\<close> to \<open>ceiling - 1\<close>, each followed by the events \<open>between\<close> (the log
  line of the retry and the sleep), then the attempt with counter \<open>ceiling\<close> and the
  final ERROR line. That is \<open>ceiling + 1\<close> attempts.
\<close>

definition exhausted :: "(nat \<Rightarrow> event list) \<Rightarrow> nat \<Rightarrow> event list \<Rightarrow> event list" where
  "exhausted attempt_events ceiling between =
     concat (map (\<lambda>r. attempt_events r @ between) [0..<ceiling]) @
     attempt_events ceiling @ [Log ERROR]"

text \<open>The sleeps of a trace, in order.\<close>

fun sleeps :: "event list \<Rightarrow> nat list" where
  "sleeps [] = []"
| "sleeps (Sleep d # ev) = d # sleeps ev"
| "sleeps (_ # ev) = sleeps ev"

text \<open>The requests of a trace that create a table, a topic or a subscription.\<close>

fun creations :: "event list \<Rightarrow> sdk_call list" where
  "creations [] = []"
| "creations (Call (CreateTable d t s) # ev) = CreateTable d t s # creations ev"
| "creations (Call (CreateTopic p) # ev) = CreateTopic p # creations ev"
| "creations (Call (CreateSubscription p q) # ev) = CreateSubscription p q # creations ev"
| "creations (_ # ev) = creations ev"

text \<open>The requests of a trace that look a table, a topic or a subscription up.\<close>

fun lookups :: "event list \<Rightarrow> sdk_call list" where
  "lookups [] = []"
| "lookups (Call (GetTable d t) # ev) = GetTable d t # lookups ev"
| "lookups (Call (GetTopic p) # ev) = GetTopic p # lookups ev"
| "lookups (Call (GetSubscription p) # ev) = GetSubscription p # lookups ev"
| "lookups (_ # ev) = lookups ev"

text \<open>
  Worlds to run the code in: every request is served; every request fails; every
  request finds nothing; a lookup finds nothing and everything else is served.
\<close>

definition world_ok :: world where
  "world_ok =
     \<lparr> raises = (\<lambda>_ _ _. None),
       blob_exists = (\<lambda>_ _. True),
       blob_found = (\<lambda>_ _ _. True),
       blob_names = (\<lambda>_ _ _. []),
       uuid4 = (\<lambda>_. ''u''),
       job_id_of = (\<lambda>_ j. j),
       job_errors = (\<lambda>_ _. None),
       json_dumps = (\<lambda>_. ''{}''),
       future_result = Never \<rparr>"

definition world_down :: world where
  "world_down = world_ok \<lparr> raises := (\<lambda>_ _ _. Some (OtherError ''503'')) \<rparr>"

definition world_notfound :: world where
  "world_notfound = world_ok \<lparr> raises := (\<lambda>_ _ _. Some NotFound) \<rparr>"

definition world_missing :: world where
  "world_missing = world_ok \<lparr> raises := (\<lambda>_ site _. if site = 0 then Some NotFound else None) \<rparr>"

text \<open>
  Worlds for the table facade: the created table never becomes visible; it becomes
  visible at the third check; every request answers "already exists".
\<close>

definition world_invisible :: world where
  "world_invisible = world_ok \<lparr> raises := (\<lambda>_ site _. if site = 0 then None else Some NotFound) \<rparr>"

definition world_lag :: world where
  "world_lag =
     world_ok \<lparr> raises := (\<lambda>_ site _. if 1 \<le> site \<and> site \<le> 2 then Some NotFound else None) \<rparr>"


text \<open>
  A world where the wait for a job runs into the timeout (the wait is call site 3 of
  \<open>insert_file\<close> and call site 1 of the other two), and one where the subscriber's stream
  breaks.
\<close>

definition world_timeout :: world where
  "world_timeout =
     world_ok \<lparr> raises := (\<lambda>_ site _. if site = 1 \<or> site = 3 then Some TimeoutError else None) \<rparr>"


text \<open>A world where the lookups work and the third call site of an attempt fails.\<close>

definition world_publish_down :: world where
  "world_publish_down = world_ok \<lparr> raises := (\<lambda>_ site _. if site = 2 then Some (OtherError ''503'') else None) \<rparr>"

text \<open>
  A call resolves: no error of class \<open>Exception\<close> reaches the caller, and the value
  returned is the failure sentinel, or the value \<open>wrap x\<close> of a try block that ran to its
  end with \<open>x\<close>, on this attempt or on a later one.
\<close>

definition resolves :: "(nat \<Rightarrow> 'a run) \<Rightarrow> ('a \<Rightarrow> 'b) \<Rightarrow> 'b \<Rightarrow> nat \<Rightarrow> 'b run \<Rightarrow> bool" where
  "resolves attempt wrap sentinel r m =
     (case fst m of
        Inl e \<Rightarrow> \<not> is_Exception e
      | Inr v \<Rightarrow> v = sentinel \<or> (\<exists>r' x. r \<le> r' \<and> fst (attempt r') = Inr x \<and> v = wrap x))"


text \<open>
  A world where the topic is never found, every creation is served, and the call that
  publishes fails on the first attempt only.
\<close>

definition world_flaky :: world where
  "world_flaky =
     world_ok \<lparr> raises := (\<lambda>r site _.
       if site = 0 then Some NotFound
       else if site = 2 \<and> r = 0 then Some (OtherError ''503'')
       else None) \<rparr>"

section \<open>Properties of the locator parser\<close>

lemma str_split_nonempty: "str_split sep s \<noteq> []"
  by (induction s) (auto split: list.splits)

lemma hd_str_split: "sep \<notin> set c \<Longrightarrow> hd (str_split sep (c @ sep # r)) = c"
proof (induction c)
  case Nil
  then show ?case by simp
next
  case (Cons x c)
  then show ?case
    using str_split_nonempty [of sep "c @ sep # r"]
    by (cases "str_split sep (c @ sep # r)") auto
qed

lemma endswith_Cons: "endswith c suf \<Longrightarrow> endswith (x # c) suf"
  by (auto simp: endswith_def Suc_diff_le)

lemma str_replace_skip:
  "old \<noteq> [] \<Longrightarrow> s \<noteq> [] \<Longrightarrow> take (length old) s \<noteq> old \<Longrightarrow>
     str_replace old new s = hd s # str_replace old new (tl s)"
  by (subst str_replace.simps) simp

lemma str_replace_hit:
  "old \<noteq> [] \<Longrightarrow> str_replace old new (old @ s) = new @ str_replace old new s"
  by (subst str_replace.simps) simp

lemma gs_prefix_shape:
  assumes "take (length ''gs://'') (c @ CHR ''/'' # p) = ''gs://''" and "CHR ''/'' \<notin> set c"
  shows "c = ''gs:'' \<and> startswith p ''/''"
proof -
  obtain a1 r1 where c1: "c = a1 # r1" using assms by (cases c) auto
  obtain a2 r2 where c2: "r1 = a2 # r2" using assms c1 by (cases r1) auto
  obtain a3 r3 where c3: "r2 = a3 # r3" using assms c1 c2 by (cases r2) auto
  have r3: "r3 = []" using assms c1 c2 c3 by (cases r3) auto
  from assms c1 c2 c3 r3 show ?thesis
    by (cases p) (auto simp: startswith_def)
qed

lemma str_replace_bucket:
  "CHR ''/'' \<notin> set c \<Longrightarrow> \<not> (endswith c ''gs:'' \<and> startswith p ''/'') \<Longrightarrow>
     str_replace ''gs://'' '''' (c @ CHR ''/'' # p) = c @ CHR ''/'' # str_replace ''gs://'' '''' p"
proof (induction c)
  case Nil
  show ?case
    using str_replace_skip [of "''gs://''" "CHR ''/'' # p" "''''"] by simp
next
  case (Cons x c)
  have nomatch: "take (length ''gs://'') ((x # c) @ CHR ''/'' # p) \<noteq> ''gs://''"
  proof
    assume "take (length ''gs://'') ((x # c) @ CHR ''/'' # p) = ''gs://''"
    from gs_prefix_shape [OF this] Cons.prems(1)
    have "x # c = ''gs:''" and "startswith p ''/''" by auto
    with Cons.prems(2) show False by (simp add: endswith_def)
  qed
  have "\<not> (endswith c ''gs:'' \<and> startswith p ''/'')"
    using Cons.prems(2) endswith_Cons by blast
  with Cons have IH: "str_replace ''gs://'' '''' (c @ CHR ''/'' # p) =
      c @ CHR ''/'' # str_replace ''gs://'' '''' p" by simp
  have "str_replace ''gs://'' '''' ((x # c) @ CHR ''/'' # p) =
      hd ((x # c) @ CHR ''/'' # p) # str_replace ''gs://'' '''' (tl ((x # c) @ CHR ''/'' # p))"
    by (rule str_replace_skip [OF _ _ nomatch]) simp_all
  with IH show ?case by simp
qed

lemma extractBucketFile_gs:
  assumes "CHR ''/'' \<notin> set c"
    and "\<not> (endswith c ''gs:'' \<and> startswith p ''/'')"
  shows "extractBucketFile (''gs://'' @ c @ ''/'' @ p) = (c, p)"
proof -
  have "str_replace ''gs://'' '''' (''gs://'' @ c @ ''/'' @ p) =
        c @ CHR ''/'' # str_replace ''gs://'' '''' p"
    using str_replace_hit [of "''gs://''" "''''" "c @ ''/'' @ p"] str_replace_bucket [OF assms]
    by simp
  then have b: "hd (str_split CHR ''/'' (str_replace ''gs://'' '''' (''gs://'' @ c @ ''/'' @ p))) = c"
    using hd_str_split [OF assms(1)] by simp
  have "\<And>pre. length pre = length c + 6 \<Longrightarrow> drop (length c + 6) (pre @ p) = p"
    by simp
  from this [of "''gs://'' @ c @ ''/''"]
  have d: "drop (length c + 6) (''gs://'' @ c @ ''/'' @ p) = p" by simp
  show ?thesis
    unfolding extractBucketFile_def Let_def b d ..
qed

lemma endswith_gs_colon: "endswith c ''gs:'' \<Longrightarrow> CHR '':'' \<in> set c"
proof -
  assume a: "endswith c ''gs:''"
  then have "drop (length c - length ''gs:'') c = ''gs:''"
    by (simp only: endswith_def)
  then have "CHR '':'' \<in> set (drop (length c - length ''gs:'') c)"
    by simp
  then show ?thesis
    by (rule in_set_dropD)
qed

text \<open>
  Where the round trip holds. For a container name \<open>c\<close> without \<open>/\<close> and an item path
  \<open>p\<close>, \<open>extractBucketFile\<close> of \<open>"gs://" + c + "/" + p\<close> is \<open>(c, p)\<close>, and putting the
  scheme and the container back in front of the item path gives the locator again,
  whenever the text \<open>"gs://"\<close> does not occur a second time across the separator, that
  is unless \<open>c\<close> ends with \<open>"gs:"\<close> while \<open>p\<close> starts with \<open>"/"\<close>. A name in which no \<open>:\<close>
  occurs, as the storage service requires of a bucket name, is always safe.
\<close>

theorem extractBucketFile_roundtrip:
  assumes "CHR ''/'' \<notin> set c" and "p \<noteq> []"
    and "\<not> (endswith c ''gs:'' \<and> startswith p ''/'')"
  shows "extractBucketFile (''gs://'' @ c @ ''/'' @ p) = (c, p) \<and>
         (case extractBucketFile (''gs://'' @ c @ ''/'' @ p) of
            (bucket, filePath) \<Rightarrow> ''gs://'' @ bucket @ ''/'' @ filePath) =
           ''gs://'' @ c @ ''/'' @ p"
  using extractBucketFile_gs [OF assms(1,3)] by simp

theorem extractBucketFile_roundtrip_witness:
  "CHR ''/'' \<notin> set ''container'' \<and> ''a/b/c'' \<noteq> [] \<and>
   \<not> (endswith ''container'' ''gs:'' \<and> startswith ''a/b/c'' ''/'') \<and>
   extractBucketFile ''gs://container/a/b/c'' = (''container'', ''a/b/c'')"
proof -
  have h1: "CHR ''/'' \<notin> set ''container''" by simp
  have h2: "''a/b/c'' \<noteq> []" by simp
  have h3: "\<not> (endswith ''container'' ''gs:'' \<and> startswith ''a/b/c'' ''/'')"
    by (simp add: endswith_def startswith_def)
  from extractBucketFile_roundtrip [OF h1 h2 h3] h1 h2 h3 show ?thesis by simp
qed

lemma extractBucketFile_bucket_name:
  assumes "CHR ''/'' \<notin> set c" and "CHR '':'' \<notin> set c"
  shows "extractBucketFile (''gs://'' @ c @ ''/'' @ p) = (c, p)"
proof (rule extractBucketFile_gs [OF assms(1)])
  show "\<not> (endswith c ''gs:'' \<and> startswith p ''/'')"
    using assms(2) endswith_gs_colon by blast
qed

text \<open>
  Claim C7 against the code. The claim ranges over every container name without \<open>/\<close>
  and every non-empty item path. Take the locator \<open>"gs://gs://bucket/file"\<close>, a locator
  that was given its scheme twice: it is \<open>"gs://" + c + "/" + p\<close> for the container name
  \<open>c = "gs:"\<close> and the item path \<open>p = "/bucket/file"\<close>. \<^verbatim>\<open>replace\<close> deletes both
  occurrences of \<open>"gs://"\<close>, so the bucket is read off \<open>"bucket/file"\<close>, while the slice
  \<^verbatim>\<open>gsPath[len(bucket) + 6 :]\<close> counts one scheme of five characters and one
  separator: the answer is \<open>("bucket", "cket/file")\<close>, which is neither the pair
  \<open>(c, p)\<close> of the claim nor the bucket and file of any reading of the locator. The
  example of the specification decomposes as it says.
\<close>

theorem extractBucketFile_doubled_scheme:
  "CHR ''/'' \<notin> set ''gs:'' \<and> ''/bucket/file'' \<noteq> [] \<and>
   ''gs://'' @ ''gs:'' @ ''/'' @ ''/bucket/file'' = ''gs://gs://bucket/file'' \<and>
   extractBucketFile ''gs://gs://bucket/file'' = (''bucket'', ''cket/file'') \<and>
   extractBucketFile ''gs://gs://bucket/file'' \<noteq> (''gs:'', ''/bucket/file'') \<and>
   (case extractBucketFile ''gs://gs://bucket/file'' of
      (bucket, filePath) \<Rightarrow> ''gs://'' @ bucket @ ''/'' @ filePath) = ''gs://bucket/cket/file'' \<and>
   extractBucketFile ''gs://container/a/b/c'' = (''container'', ''a/b/c'')"
  by (simp add: extractBucketFile_def Let_def str_replace.simps)

section \<open>Exhausted retries\<close>

lemma fails_retriablyE:
  assumes "fails_retriably m"
  obtains e ev where "m = (Inl e, ev)" and "retriable e"
  using assms by (cases m; cases "fst m") (auto simp: fails_retriably_def)

lemma move_file_gs_retry:
  assumes "fails_retriably (move_file_gs_attempt w gsPathIn gsPathOut delete r)" and "r < 3"
  shows "move_file_gs w gsPathIn gsPathOut delete r =
     (fst (move_file_gs w gsPathIn gsPathOut delete (Suc r)),
      snd (move_file_gs_attempt w gsPathIn gsPathOut delete r) @ [Log WARNING, Sleep 3] @ snd (move_file_gs w gsPathIn gsPathOut delete (Suc r)))"
  using assms
  by (subst move_file_gs.simps, elim fails_retriablyE)
     (simp add: retriable_def split: prod.splits)

lemma move_file_gs_last:
  assumes "fails_retriably (move_file_gs_attempt w gsPathIn gsPathOut delete r)" and "\<not> r < 3"
  shows "move_file_gs w gsPathIn gsPathOut delete r = (Inr False, snd (move_file_gs_attempt w gsPathIn gsPathOut delete r) @ [Log ERROR])"
  using assms
  by (subst move_file_gs.simps, elim fails_retriablyE)
     (simp add: retriable_def split: prod.splits)

lemma move_file_gs_exhausted:
  assumes "\<forall>r\<le>3. fails_retriably (move_file_gs_attempt w gsPathIn gsPathOut delete r)"
  shows "move_file_gs w gsPathIn gsPathOut delete 0 =
     (Inr False, exhausted (\<lambda>r. snd (move_file_gs_attempt w gsPathIn gsPathOut delete r)) 3 [Log WARNING, Sleep 3])"
proof -
  have f: "fails_retriably (move_file_gs_attempt w gsPathIn gsPathOut delete 0)" "fails_retriably (move_file_gs_attempt w gsPathIn gsPathOut delete (Suc 0))" "fails_retriably (move_file_gs_attempt w gsPathIn gsPathOut delete (Suc (Suc 0)))" "fails_retriably (move_file_gs_attempt w gsPathIn gsPathOut delete (Suc (Suc (Suc 0))))"
    using assms by simp_all
  show ?thesis
    by (simp add: exhausted_def move_file_gs_retry move_file_gs_last f numeral_3_eq_3 numeral_2_eq_2)
qed

lemma download_file_from_gs_retry:
  assumes "fails_retriably (download_file_from_gs_attempt w gsPath localPath r)" and "r < 3"
  shows "download_file_from_gs w gsPath localPath r =
     (fst (download_file_from_gs w gsPath localPath (Suc r)),
      snd (download_file_from_gs_attempt w gsPath localPath r) @ [Log WARNING, Sleep 3] @ snd (download_file_from_gs w gsPath localPath (Suc r)))"
  using assms
  by (subst download_file_from_gs.simps, elim fails_retriablyE)
     (simp add: retriable_def split: prod.splits)

lemma download_file_from_gs_last:
  assumes "fails_retriably (download_file_from_gs_attempt w gsPath localPath r)" and "\<not> r < 3"
  shows "download_file_from_gs w gsPath localPath r = (Inr False, snd (download_file_from_gs_attempt w gsPath localPath r) @ [Log ERROR])"
  using assms
  by (subst download_file_from_gs.simps, elim fails_retriablyE)
     (simp add: retriable_def split: prod.splits)

lemma download_file_from_gs_exhausted:
  assumes "\<forall>r\<le>3. fails_retriably (download_file_from_gs_attempt w gsPath localPath r)"
  shows "download_file_from_gs w gsPath localPath 0 =
     (Inr False, exhausted (\<lambda>r. snd (download_file_from_gs_attempt w gsPath localPath r)) 3 [Log WARNING, Sleep 3])"
proof -
  have f: "fails_retriably (download_file_from_gs_attempt w gsPath localPath 0)" "fails_retriably (download_file_from_gs_attempt w gsPath localPath (Suc 0))" "fails_retriably (download_file_from_gs_attempt w gsPath localPath (Suc (Suc 0)))" "fails_retriably (download_file_from_gs_attempt w gsPath localPath (Suc (Suc (Suc 0))))"
    using assms by simp_all
  show ?thesis
    by (simp add: exhausted_def download_file_from_gs_retry download_file_from_gs_last f numeral_3_eq_3 numeral_2_eq_2)
qed

lemma upload_file_to_gs_retry:
  assumes "fails_retriably (upload_file_to_gs_attempt w localPath gsPath delete r)" and "r < 3"
  shows "upload_file_to_gs w localPath gsPath delete r =
     (fst (upload_file_to_gs w localPath gsPath delete (Suc r)),
      snd (upload_file_to_gs_attempt w localPath gsPath delete r) @ [Log WARNING, Sleep 3] @ snd (upload_file_to_gs w localPath gsPath delete (Suc r)))"
  using assms
  by (subst upload_file_to_gs.simps, elim fails_retriablyE)
     (simp add: retriable_def split: prod.splits)

lemma upload_file_to_gs_last:
  assumes "fails_retriably (upload_file_to_gs_attempt w localPath gsPath delete r)" and "\<not> r < 3"
  shows "upload_file_to_gs w localPath gsPath delete r = (Inr False, snd (upload_file_to_gs_attempt w localPath gsPath delete r) @ [Log ERROR])"
  using assms
  by (subst upload_file_to_gs.simps, elim fails_retriablyE)
     (simp add: retriable_def split: prod.splits)

lemma upload_file_to_gs_exhausted:
  assumes "\<forall>r\<le>3. fails_retriably (upload_file_to_gs_attempt w localPath gsPath delete r)"
  shows "upload_file_to_gs w localPath gsPath delete 0 =
     (Inr False, exhausted (\<lambda>r. snd (upload_file_to_gs_attempt w localPath gsPath delete r)) 3 [Log WARNING, Sleep 3])"
proof -
  have f: "fails_retriably (upload_file_to_gs_attempt w localPath gsPath delete 0)" "fails_retriably (upload_file_to_gs_attempt w localPath gsPath delete (Suc 0))" "fails_retriably (upload_file_to_gs_attempt w localPath gsPath delete (Suc (Suc 0)))" "fails_retriably (upload_file_to_gs_attempt w localPath gsPath delete (Suc (Suc (Suc 0))))"
    using assms by simp_all
  show ?thesis
    by (simp add: exhausted_def upload_file_to_gs_retry upload_file_to_gs_last f numeral_3_eq_3 numeral_2_eq_2)
qed

lemma delete_file_from_gs_retry:
  assumes "fails_retriably (delete_file_from_gs_attempt w gsPath r)" and "r < 2"
  shows "delete_file_from_gs w gsPath r =
     (fst (delete_file_from_gs w gsPath (Suc r)),
      snd (delete_file_from_gs_attempt w gsPath r) @ [Log WARNING, Sleep 3] @ snd (delete_file_from_gs w gsPath (Suc r)))"
  using assms
  by (subst delete_file_from_gs.simps, elim fails_retriablyE)
     (simp add: retriable_def split: prod.splits)

lemma delete_file_from_gs_last:
  assumes "fails_retriably (delete_file_from_gs_attempt w gsPath r)" and "\<not> r < 2"
  shows "delete_file_from_gs w gsPath r = (Inr False, snd (delete_file_from_gs_attempt w gsPath r) @ [Log ERROR])"
  using assms
  by (subst delete_file_from_gs.simps, elim fails_retriablyE)
     (simp add: retriable_def split: prod.splits)

lemma delete_file_from_gs_exhausted:
  assumes "\<forall>r\<le>2. fails_retriably (delete_file_from_gs_attempt w gsPath r)"
  shows "delete_file_from_gs w gsPath 0 =
     (Inr False, exhausted (\<lambda>r. snd (delete_file_from_gs_attempt w gsPath r)) 2 [Log WARNING, Sleep 3])"
proof -
  have f: "fails_retriably (delete_file_from_gs_attempt w gsPath 0)" "fails_retriably (delete_file_from_gs_attempt w gsPath (Suc 0))" "fails_retriably (delete_file_from_gs_attempt w gsPath (Suc (Suc 0)))"
    using assms by simp_all
  show ?thesis
    by (simp add: exhausted_def delete_file_from_gs_retry delete_file_from_gs_last f numeral_3_eq_3 numeral_2_eq_2)
qed

lemma insert_file_retry:
  assumes "fails_retriably (insert_file_attempt w timeout file_path dataset_name table_name r)" and "r < 3"
  shows "insert_file w timeout file_path dataset_name table_name r =
     (fst (insert_file w timeout file_path dataset_name table_name (Suc r)),
      snd (insert_file_attempt w timeout file_path dataset_name table_name r) @ [Log WARNING, Sleep 5] @ snd (insert_file w timeout file_path dataset_name table_name (Suc r)))"
  using assms
  by (subst insert_file.simps, elim fails_retriablyE)
     (simp add: retriable_def split: prod.splits)

lemma insert_file_last:
  assumes "fails_retriably (insert_file_attempt w timeout file_path dataset_name table_name r)" and "\<not> r < 3"
  shows "insert_file w timeout file_path dataset_name table_name r = (Inr (None, None), snd (insert_file_attempt w timeout file_path dataset_name table_name r) @ [Log ERROR])"
  using assms
  by (subst insert_file.simps, elim fails_retriablyE)
     (simp add: retriable_def split: prod.splits)

lemma insert_file_exhausted:
  assumes "\<forall>r\<le>3. fails_retriably (insert_file_attempt w timeout file_path dataset_name table_name r)"
  shows "insert_file w timeout file_path dataset_name table_name 0 =
     (Inr (None, None), exhausted (\<lambda>r. snd (insert_file_attempt w timeout file_path dataset_name table_name r)) 3 [Log WARNING, Sleep 5])"
proof -
  have f: "fails_retriably (insert_file_attempt w timeout file_path dataset_name table_name 0)" "fails_retriably (insert_file_attempt w timeout file_path dataset_name table_name (Suc 0))" "fails_retriably (insert_file_attempt w timeout file_path dataset_name table_name (Suc (Suc 0)))" "fails_retriably (insert_file_attempt w timeout file_path dataset_name table_name (Suc (Suc (Suc 0))))"
    using assms by simp_all
  show ?thesis
    by (simp add: exhausted_def insert_file_retry insert_file_last f numeral_3_eq_3 numeral_2_eq_2)
qed

lemma run_queryjob_retry:
  assumes "fails_retriably (run_queryjob_attempt w timeout dataset_name table_name query r)" and "r < 3"
  shows "run_queryjob w timeout dataset_name table_name query r =
     (fst (run_queryjob w timeout dataset_name table_name query (Suc r)),
      snd (run_queryjob_attempt w timeout dataset_name table_name query r) @ [Log WARNING, Sleep 5] @ snd (run_queryjob w timeout dataset_name table_name query (Suc r)))"
  using assms
  by (subst run_queryjob.simps, elim fails_retriablyE)
     (simp add: retriable_def split: prod.splits)

lemma run_queryjob_last:
  assumes "fails_retriably (run_queryjob_attempt w timeout dataset_name table_name query r)" and "\<not> r < 3"
  shows "run_queryjob w timeout dataset_name table_name query r = (Inr (None, None), snd (run_queryjob_attempt w timeout dataset_name table_name query r) @ [Log ERROR])"
  using assms
  by (subst run_queryjob.simps, elim fails_retriablyE)
     (simp add: retriable_def split: prod.splits)

lemma run_queryjob_exhausted:
  assumes "\<forall>r\<le>3. fails_retriably (run_queryjob_attempt w timeout dataset_name table_name query r)"
  shows "run_queryjob w timeout dataset_name table_name query 0 =
     (Inr (None, None), exhausted (\<lambda>r. snd (run_queryjob_attempt w timeout dataset_name table_name query r)) 3 [Log WARNING, Sleep 5])"
proof -
  have f: "fails_retriably (run_queryjob_attempt w timeout dataset_name table_name query 0)" "fails_retriably (run_queryjob_attempt w timeout dataset_name table_name query (Suc 0))" "fails_retriably (run_queryjob_attempt w timeout dataset_name table_name query (Suc (Suc 0)))" "fails_retriably (run_queryjob_attempt w timeout dataset_name table_name query (Suc (Suc (Suc 0))))"
    using assms by simp_all
  show ?thesis
    by (simp add: exhausted_def run_queryjob_retry run_queryjob_last f numeral_3_eq_3 numeral_2_eq_2)
qed

lemma run_extractjob_retry:
  assumes "fails_retriably (run_extractjob_attempt w timeout destination_uris dataset_name table_name r)" and "r < 3"
  shows "run_extractjob w timeout destination_uris dataset_name table_name r =
     (fst (run_extractjob w timeout destination_uris dataset_name table_name (Suc r)),
      snd (run_extractjob_attempt w timeout destination_uris dataset_name table_name r) @ [Log WARNING, Sleep 5] @ snd (run_extractjob w timeout destination_uris dataset_name table_name (Suc r)))"
  using assms
  by (subst run_extractjob.simps, elim fails_retriablyE)
     (simp add: retriable_def split: prod.splits)

lemma run_extractjob_last:
  assumes "fails_retriably (run_extractjob_attempt w timeout destination_uris dataset_name table_name r)" and "\<not> r < 3"
  shows "run_extractjob w timeout destination_uris dataset_name table_name r = (Inr (None, None), snd (run_extractjob_attempt w timeout destination_uris dataset_name table_name r) @ [Log ERROR])"
  using assms
  by (subst run_extractjob.simps, elim fails_retriablyE)
     (simp add: retriable_def split: prod.splits)

lemma run_extractjob_exhausted:
  assumes "\<forall>r\<le>3. fails_retriably (run_extractjob_attempt w timeout destination_uris dataset_name table_name r)"
  shows "run_extractjob w timeout destination_uris dataset_name table_name 0 =
     (Inr (None, None), exhausted (\<lambda>r. snd (run_extractjob_attempt w timeout destination_uris dataset_name table_name r)) 3 [Log WARNING, Sleep 5])"
proof -
  have f: "fails_retriably (run_extractjob_attempt w timeout destination_uris dataset_name table_name 0)" "fails_retriably (run_extractjob_attempt w timeout destination_uris dataset_name table_name (Suc 0))" "fails_retriably (run_extractjob_attempt w timeout destination_uris dataset_name table_name (Suc (Suc 0)))" "fails_retriably (run_extractjob_attempt w timeout destination_uris dataset_name table_name (Suc (Suc (Suc 0))))"
    using assms by simp_all
  show ?thesis
    by (simp add: exhausted_def run_extractjob_retry run_extractjob_last f numeral_3_eq_3 numeral_2_eq_2)
qed

lemma createwait_table_retry:
  assumes "createwait_table_attempt w dataset_name table_name schema_bq r = Some m"
    and "fails_retriably m" and "r < 3"
  shows "createwait_table w dataset_name table_name schema_bq r =
     map_option (\<lambda>(res, ev'). (res, snd m @ [Log WARNING, Sleep 5] @ ev'))
       (createwait_table w dataset_name table_name schema_bq (Suc r))"
proof -
  from assms(2) obtain e ev where m: "m = (Inl e, ev)" and e: "retriable e"
    by (rule fails_retriablyE)
  show ?thesis
    using assms(1,3) e unfolding m
    by (subst createwait_table.simps)
       (simp add: retriable_def split: prod.splits option.splits)
qed

lemma createwait_table_last:
  assumes "createwait_table_attempt w dataset_name table_name schema_bq r = Some m"
    and "fails_retriably m" and "\<not> r < 3"
  shows "createwait_table w dataset_name table_name schema_bq r = Some (Inr False, snd m @ [Log ERROR])"
proof -
  from assms(2) obtain e ev where m: "m = (Inl e, ev)" and e: "retriable e"
    by (rule fails_retriablyE)
  show ?thesis
    using assms(1,3) e unfolding m
    by (subst createwait_table.simps)
       (simp add: retriable_def split: prod.splits option.splits)
qed

lemma createwait_table_attempt_fails:
  assumes "createwait_table_attempt w dataset_name table_name schema_bq r = Some m"
    and "fails_retriably m"
  shows "snd m = [Call (CreateTable dataset_name table_name schema_bq)]"
proof -
  from assms(2) obtain e ev where m: "m = (Inl e, ev)" and e: "retriable e"
    by (rule fails_retriablyE)
  show ?thesis
    using assms(1) unfolding m
    by (simp add: createwait_table_attempt_def call_def split: option.splits)
qed

lemma createwait_table_exhausted:
  assumes "\<forall>r\<le>3. case createwait_table_attempt w dataset_name table_name schema_bq r of
                    None \<Rightarrow> False | Some m \<Rightarrow> fails_retriably m"
  shows "createwait_table w dataset_name table_name schema_bq 0 =
     Some (Inr False,
           exhausted (\<lambda>r. [Call (CreateTable dataset_name table_name schema_bq)]) 3
             [Log WARNING, Sleep 5])"
proof -
  have a: "\<exists>m. createwait_table_attempt w dataset_name table_name schema_bq r = Some m \<and>
          fails_retriably m \<and> snd m = [Call (CreateTable dataset_name table_name schema_bq)]"
    if "r \<le> 3" for r
  proof (cases "createwait_table_attempt w dataset_name table_name schema_bq r")
    case None
    with assms that show ?thesis by (auto dest!: spec [of _ r])
  next
    case (Some m)
    with assms that have "fails_retriably m" by (auto dest!: spec [of _ r])
    with Some createwait_table_attempt_fails [OF Some] show ?thesis by simp
  qed
  from a [of 0] obtain m0 where m0:
    "createwait_table_attempt w dataset_name table_name schema_bq 0 = Some m0"
    "fails_retriably m0" "snd m0 = [Call (CreateTable dataset_name table_name schema_bq)]"
    by auto
  from a [of "Suc 0"] obtain m1 where m1:
    "createwait_table_attempt w dataset_name table_name schema_bq (Suc 0) = Some m1"
    "fails_retriably m1" "snd m1 = [Call (CreateTable dataset_name table_name schema_bq)]"
    by auto
  from a [of "Suc (Suc 0)"] obtain m2 where m2:
    "createwait_table_attempt w dataset_name table_name schema_bq (Suc (Suc 0)) = Some m2"
    "fails_retriably m2" "snd m2 = [Call (CreateTable dataset_name table_name schema_bq)]"
    by auto
  from a [of "Suc (Suc (Suc 0))"] obtain m3 where m3:
    "createwait_table_attempt w dataset_name table_name schema_bq (Suc (Suc (Suc 0))) = Some m3"
    "fails_retriably m3" "snd m3 = [Call (CreateTable dataset_name table_name schema_bq)]"
    by auto
  have s3: "createwait_table w dataset_name table_name schema_bq (Suc (Suc (Suc 0))) =
      Some (Inr False, [Call (CreateTable dataset_name table_name schema_bq), Log ERROR])"
    using createwait_table_last [OF m3(1,2)] m3(3) by simp
  have s2: "createwait_table w dataset_name table_name schema_bq (Suc (Suc 0)) =
      Some (Inr False, [Call (CreateTable dataset_name table_name schema_bq), Log WARNING, Sleep 5,
                        Call (CreateTable dataset_name table_name schema_bq), Log ERROR])"
    using createwait_table_retry [OF m2(1,2)] m2(3) s3 by simp
  have s1: "createwait_table w dataset_name table_name schema_bq (Suc 0) =
      Some (Inr False, [Call (CreateTable dataset_name table_name schema_bq), Log WARNING, Sleep 5,
                        Call (CreateTable dataset_name table_name schema_bq), Log WARNING, Sleep 5,
                        Call (CreateTable dataset_name table_name schema_bq), Log ERROR])"
    using createwait_table_retry [OF m1(1,2)] m1(3) s2 by simp
  have s0: "createwait_table w dataset_name table_name schema_bq 0 =
      Some (Inr False, [Call (CreateTable dataset_name table_name schema_bq), Log WARNING, Sleep 5,
                        Call (CreateTable dataset_name table_name schema_bq), Log WARNING, Sleep 5,
                        Call (CreateTable dataset_name table_name schema_bq), Log WARNING, Sleep 5,
                        Call (CreateTable dataset_name table_name schema_bq), Log ERROR])"
    using createwait_table_retry [OF m0(1,2)] m0(3) s1 by simp
  show ?thesis
    unfolding s0 by (simp add: exhausted_def numeral_3_eq_3)
qed

lemma publish_retry:
  assumes "publish_setup w project_id topic_name message attributes r = (Inr (data, attrs), ev0)"
    and "fails_retriably (publish_try w project_id topic_name data attrs r)"
    and "r < 2"
  shows "publish w project_id topic_name message attributes r =
     (fst (publish w project_id topic_name message attributes (Suc r)),
      ev0 @ snd (publish_try w project_id topic_name data attrs r) @
      [Log ERROR, Sleep 10] @ snd (publish w project_id topic_name message attributes (Suc r)))"
proof -
  from assms(2) obtain e ev where
    m: "publish_try w project_id topic_name data attrs r = (Inl e, ev)"
    and e: "retriable e"
    by (rule fails_retriablyE)
  show ?thesis
    using assms(3) e
    by (subst publish.simps) (simp add: m assms(1) retriable_def split: prod.splits)
qed

lemma publish_last:
  assumes "publish_setup w project_id topic_name message attributes r = (Inr (data, attrs), ev0)"
    and "fails_retriably (publish_try w project_id topic_name data attrs r)"
    and "\<not> r < 2"
  shows "publish w project_id topic_name message attributes r =
     (Inr False, ev0 @ snd (publish_try w project_id topic_name data attrs r) @ [Log ERROR])"
proof -
  from assms(2) obtain e ev where
    m: "publish_try w project_id topic_name data attrs r = (Inl e, ev)"
    and e: "retriable e"
    by (rule fails_retriablyE)
  show ?thesis
    using assms(3) e
    by (subst publish.simps) (simp add: m assms(1) retriable_def split: prod.splits)
qed

lemma publish_exhausted:
  assumes "\<forall>r\<le>2. fst (publish_setup w project_id topic_name message attributes r) = Inr (data, attrs) \<and>
             fails_retriably (publish_try w project_id topic_name data attrs r)"
  shows "publish w project_id topic_name message attributes 0 =
     (Inr False,
      exhausted (\<lambda>r. snd (publish_setup w project_id topic_name message attributes r) @
                     snd (publish_try w project_id topic_name data attrs r))
        2 [Log ERROR, Sleep 10])"
proof -
  have s: "publish_setup w project_id topic_name message attributes r =
      (Inr (data, attrs), snd (publish_setup w project_id topic_name message attributes r))"
    if "r \<le> 2" for r
    using assms that
    by (cases "publish_setup w project_id topic_name message attributes r") auto
  have f: "fails_retriably (publish_try w project_id topic_name data attrs r)"
    if "r \<le> 2" for r
    using assms that by simp
  have s2: "publish w project_id topic_name message attributes (Suc (Suc 0)) =
      (Inr False,
       snd (publish_setup w project_id topic_name message attributes (Suc (Suc 0))) @
       snd (publish_try w project_id topic_name data attrs (Suc (Suc 0))) @ [Log ERROR])"
    by (rule publish_last [OF s f]) simp_all
  have s1: "publish w project_id topic_name message attributes (Suc 0) =
      (Inr False,
       snd (publish_setup w project_id topic_name message attributes (Suc 0)) @
       snd (publish_try w project_id topic_name data attrs (Suc 0)) @ [Log ERROR, Sleep 10] @
       snd (publish_setup w project_id topic_name message attributes (Suc (Suc 0))) @
       snd (publish_try w project_id topic_name data attrs (Suc (Suc 0))) @ [Log ERROR])"
    using publish_retry [OF s f, of "Suc 0"] s2 by simp
  have s0: "publish w project_id topic_name message attributes 0 =
      (Inr False,
       snd (publish_setup w project_id topic_name message attributes 0) @
       snd (publish_try w project_id topic_name data attrs 0) @ [Log ERROR, Sleep 10] @
       snd (publish_setup w project_id topic_name message attributes (Suc 0)) @
       snd (publish_try w project_id topic_name data attrs (Suc 0)) @ [Log ERROR, Sleep 10] @
       snd (publish_setup w project_id topic_name message attributes (Suc (Suc 0))) @
       snd (publish_try w project_id topic_name data attrs (Suc (Suc 0))) @ [Log ERROR])"
    using publish_retry [OF s f, of 0] s1 by simp
  show ?thesis
    unfolding s0 by (simp add: exhausted_def numeral_2_eq_2)
qed

text \<open>
  The retry convention, operation by operation. A fresh call (retry counter \<open>0\<close>) of an
  operation with retry ceiling \<open>C\<close>, each of whose attempts \<open>0, ..., C\<close> raises an
  exception of the retriable class in its try block, runs exactly these \<open>C + 1\<close>
  attempts, with the WARNING line and the fixed sleep after each of the first \<open>C\<close>, and
  returns the failure sentinel: \<open>False\<close>, or the pair \<open>(None, None)\<close>. The ceiling is 3
  and the sleep 3 seconds for \<open>move_file_gs\<close>, \<open>download_file_from_gs\<close> and
  \<open>upload_file_to_gs\<close>, 3 and 5 seconds for \<open>createwait_table\<close>, \<open>insert_file\<close>,
  \<open>run_queryjob\<close> and \<open>run_extractjob\<close>, 2 and 3 seconds for \<open>delete_file_from_gs\<close>. For
  these eight the try block is the whole body. The try block of \<open>publish\<close> is the call
  that publishes alone: \<open>publish\<close> follows the convention (ceiling 2, an ERROR line and
  a sleep of 10 seconds) only as long as the statements before the try block complete
  on every attempt.
\<close>

theorem retry_ceiling_exhausted:
  "((\<forall>r\<le>3. fails_retriably (move_file_gs_attempt w gsPathIn gsPathOut delete r)) \<longrightarrow>
      move_file_gs w gsPathIn gsPathOut delete 0 =
        (Inr False,
         exhausted (\<lambda>r. snd (move_file_gs_attempt w gsPathIn gsPathOut delete r)) 3
           [Log WARNING, Sleep 3])) \<and>
   ((\<forall>r\<le>3. fails_retriably (download_file_from_gs_attempt w gsPath localPath r)) \<longrightarrow>
      download_file_from_gs w gsPath localPath 0 =
        (Inr False,
         exhausted (\<lambda>r. snd (download_file_from_gs_attempt w gsPath localPath r)) 3
           [Log WARNING, Sleep 3])) \<and>
   ((\<forall>r\<le>3. fails_retriably (upload_file_to_gs_attempt w localPath gsPath delete r)) \<longrightarrow>
      upload_file_to_gs w localPath gsPath delete 0 =
        (Inr False,
         exhausted (\<lambda>r. snd (upload_file_to_gs_attempt w localPath gsPath delete r)) 3
           [Log WARNING, Sleep 3])) \<and>
   ((\<forall>r\<le>3. case createwait_table_attempt w dataset_name table_name schema_bq r of
               None \<Rightarrow> False | Some m \<Rightarrow> fails_retriably m) \<longrightarrow>
      createwait_table w dataset_name table_name schema_bq 0 =
        Some (Inr False,
              exhausted (\<lambda>r. [Call (CreateTable dataset_name table_name schema_bq)]) 3
                [Log WARNING, Sleep 5])) \<and>
   ((\<forall>r\<le>3. fails_retriably (insert_file_attempt w timeout file_path dataset_name table_name r)) \<longrightarrow>
      insert_file w timeout file_path dataset_name table_name 0 =
        (Inr (None, None),
         exhausted (\<lambda>r. snd (insert_file_attempt w timeout file_path dataset_name table_name r)) 3
           [Log WARNING, Sleep 5])) \<and>
   ((\<forall>r\<le>3. fails_retriably (run_queryjob_attempt w timeout dataset_name table_name query r)) \<longrightarrow>
      run_queryjob w timeout dataset_name table_name query 0 =
        (Inr (None, None),
         exhausted (\<lambda>r. snd (run_queryjob_attempt w timeout dataset_name table_name query r)) 3
           [Log WARNING, Sleep 5])) \<and>
   ((\<forall>r\<le>3. fails_retriably
              (run_extractjob_attempt w timeout destination_uris dataset_name table_name r)) \<longrightarrow>
      run_extractjob w timeout destination_uris dataset_name table_name 0 =
        (Inr (None, None),
         exhausted
           (\<lambda>r. snd (run_extractjob_attempt w timeout destination_uris dataset_name table_name r)) 3
           [Log WARNING, Sleep 5])) \<and>
   ((\<forall>r\<le>2. fails_retriably (delete_file_from_gs_attempt w gsPath r)) \<longrightarrow>
      delete_file_from_gs w gsPath 0 =
        (Inr False,
         exhausted (\<lambda>r. snd (delete_file_from_gs_attempt w gsPath r)) 2 [Log WARNING, Sleep 3])) \<and>
   ((\<forall>r\<le>2. fst (publish_setup w project_id topic_name message attributes r) = Inr (data, attrs) \<and>
            fails_retriably (publish_try w project_id topic_name data attrs r)) \<longrightarrow>
      publish w project_id topic_name message attributes 0 =
        (Inr False,
         exhausted
           (\<lambda>r. snd (publish_setup w project_id topic_name message attributes r) @
                snd (publish_try w project_id topic_name data attrs r))
           2 [Log ERROR, Sleep 10]))"
  by (intro conjI impI;
      erule move_file_gs_exhausted download_file_from_gs_exhausted upload_file_to_gs_exhausted
        createwait_table_exhausted insert_file_exhausted run_queryjob_exhausted
        run_extractjob_exhausted delete_file_from_gs_exhausted publish_exhausted)

section \<open>The code run in the test worlds\<close>

lemma extract_b_f: "extractBucketFile ''gs://b/f'' = (''b'', ''f'')"
  by (simp add: extractBucketFile_def Let_def str_replace.simps)

lemma extract_c_g: "extractBucketFile ''gs://c/g'' = (''c'', ''g'')"
  by (simp add: extractBucketFile_def Let_def str_replace.simps)

lemma world_down_raises: "raises world_down r k c = Some (OtherError ''503'')"
  by (simp add: world_down_def world_ok_def)

lemma world_down_data:
  "uuid4 world_down r = ''u''" "job_id_of world_down r j = j" "job_errors world_down r j = None"
  by (simp_all add: world_down_def world_ok_def)

lemma retriable_503: "retriable (OtherError ''503'')"
  by (simp add: retriable_def is_Conflict_def)

lemma move_down:
  "move_file_gs_attempt world_down ''gs://b/f'' ''gs://c/g'' True r =
     (Inl (OtherError ''503''), [Call (GetBucket ''b'')])"
  by (simp add: move_file_gs_attempt_def extract_b_f extract_c_g seq_def call_def world_down_raises)

lemma download_down:
  "download_file_from_gs_attempt world_down ''gs://b/f'' ''/tmp/f'' r =
     (Inl (OtherError ''503''), [Call (GetBucket ''b'')])"
  by (simp add: download_file_from_gs_attempt_def extract_b_f seq_def call_def world_down_raises)

lemma upload_down:
  "upload_file_to_gs_attempt world_down ''/tmp/f'' ''gs://b/f'' True r =
     (Inl (OtherError ''503''), [Call (GetBucket ''b'')])"
  by (simp add: upload_file_to_gs_attempt_def extract_b_f seq_def call_def world_down_raises)

lemma delete_down:
  "delete_file_from_gs_attempt world_down ''gs://b/f'' r =
     (Inl (OtherError ''503''), [Call (GetBucket ''b'')])"
  by (simp add: delete_file_from_gs_attempt_def extract_b_f seq_def call_def world_down_raises)

lemma createwait_down:
  "createwait_table_attempt world_down ''ds'' ''tbl'' [] r =
     Some (Inl (OtherError ''503''), [Call (CreateTable ''ds'' ''tbl'' [])])"
  by (simp add: createwait_table_attempt_def call_def world_down_raises)

lemma insert_down:
  "insert_file_attempt world_down 180 ''gs://b/f'' ''ds'' ''tbl'' r =
     (Inl (OtherError ''503''), [Call (LoadTableFromUri ''gs://b/f'' ''ds'' ''tbl'' ''ds_tbl_loadFile-u'')])"
  by (simp add: insert_file_attempt_def load_table_def seq_def call_def world_down_raises world_down_data job_name_def)

lemma query_down:
  "run_queryjob_attempt world_down 180 ''ds'' ''tbl'' ''SELECT 1'' r =
     (Inl (OtherError ''503''), [Call (Query ''ds_tbl_fromQuery-u'' ''SELECT 1'' ''ds'' ''tbl'')])"
  by (simp add: run_queryjob_attempt_def seq_def call_def world_down_raises world_down_data job_name_def)

lemma extract_down:
  "run_extractjob_attempt world_down 180 ''gs://b/f'' ''ds'' ''tbl'' r =
     (Inl (OtherError ''503''), [Call (ExtractTable ''ds'' ''tbl'' ''gs://b/f'' ''ds_tbl_extractTable-u'')])"
  by (simp add: run_extractjob_attempt_def seq_def call_def world_down_raises world_down_data job_name_def)

lemma publish_payload_plain:
  "publish_payload w (Str m) (AttrDict []) = (Inr (m, json_dumps w []), [])"
  by (simp add: publish_payload_def encode_utf8_def dumps_def seq_def)

lemma publish_setup_down:
  "publish_setup world_publish_down ''p'' ''t'' (Str ''m'') (AttrDict []) r =
     (Inr (''m'', ''{}''), [Call (GetTopic ''projects/p/topics/t''), Log DEBUG])"
  by (simp add: publish_setup_def publish_payload_plain ensure_topic_def topic_path_def seq_def
        call_def world_publish_down_def world_ok_def)

lemma publish_try_down:
  "publish_try world_publish_down ''p'' ''t'' ''m'' ''{}'' r =
     (Inl (OtherError ''503''), [Call (Publish ''projects/p/topics/t'' ''m'' ''{}'')])"
  by (simp add: publish_try_def topic_path_def seq_def call_def
        world_publish_down_def world_ok_def)

lemma publish_down:
  "publish world_publish_down ''p'' ''t'' (Str ''m'') (AttrDict []) 0 =
     (Inr False,
      [Call (GetTopic ''projects/p/topics/t''), Log DEBUG,
       Call (Publish ''projects/p/topics/t'' ''m'' ''{}''), Log ERROR, Sleep 10,
       Call (GetTopic ''projects/p/topics/t''), Log DEBUG,
       Call (Publish ''projects/p/topics/t'' ''m'' ''{}''), Log ERROR, Sleep 10,
       Call (GetTopic ''projects/p/topics/t''), Log DEBUG,
       Call (Publish ''projects/p/topics/t'' ''m'' ''{}''), Log ERROR])"
proof -
  have "publish world_publish_down ''p'' ''t'' (Str ''m'') (AttrDict []) 0 =
      (Inr False,
       exhausted (\<lambda>r. snd (publish_setup world_publish_down ''p'' ''t'' (Str ''m'') (AttrDict []) r) @
                      snd (publish_try world_publish_down ''p'' ''t'' ''m'' ''{}'' r))
         2 [Log ERROR, Sleep 10])"
    by (rule publish_exhausted)
       (simp add: publish_setup_down publish_try_down fails_retriably_def retriable_503)
  then show ?thesis
    by (simp add: publish_setup_down publish_try_down exhausted_def numeral_2_eq_2)
qed

theorem retry_ceiling_exhausted_witness:
  "move_file_gs world_down ''gs://b/f'' ''gs://c/g'' True 0 =
     (Inr False,
      [Call (GetBucket ''b''), Log WARNING, Sleep 3, Call (GetBucket ''b''), Log WARNING, Sleep 3,
       Call (GetBucket ''b''), Log WARNING, Sleep 3, Call (GetBucket ''b''), Log ERROR]) \<and>
   download_file_from_gs world_down ''gs://b/f'' ''/tmp/f'' 0 =
     (Inr False,
      [Call (GetBucket ''b''), Log WARNING, Sleep 3, Call (GetBucket ''b''), Log WARNING, Sleep 3,
       Call (GetBucket ''b''), Log WARNING, Sleep 3, Call (GetBucket ''b''), Log ERROR]) \<and>
   upload_file_to_gs world_down ''/tmp/f'' ''gs://b/f'' True 0 =
     (Inr False,
      [Call (GetBucket ''b''), Log WARNING, Sleep 3, Call (GetBucket ''b''), Log WARNING, Sleep 3,
       Call (GetBucket ''b''), Log WARNING, Sleep 3, Call (GetBucket ''b''), Log ERROR]) \<and>
   createwait_table world_down ''ds'' ''tbl'' [] 0 =
     Some (Inr False,
      [Call (CreateTable ''ds'' ''tbl'' []), Log WARNING, Sleep 5,
       Call (CreateTable ''ds'' ''tbl'' []), Log WARNING, Sleep 5,
       Call (CreateTable ''ds'' ''tbl'' []), Log WARNING, Sleep 5,
       Call (CreateTable ''ds'' ''tbl'' []), Log ERROR]) \<and>
   insert_file world_down 180 ''gs://b/f'' ''ds'' ''tbl'' 0 =
     (Inr (None, None),
      [Call (LoadTableFromUri ''gs://b/f'' ''ds'' ''tbl'' ''ds_tbl_loadFile-u''), Log WARNING, Sleep 5,
       Call (LoadTableFromUri ''gs://b/f'' ''ds'' ''tbl'' ''ds_tbl_loadFile-u''), Log WARNING, Sleep 5,
       Call (LoadTableFromUri ''gs://b/f'' ''ds'' ''tbl'' ''ds_tbl_loadFile-u''), Log WARNING, Sleep 5,
       Call (LoadTableFromUri ''gs://b/f'' ''ds'' ''tbl'' ''ds_tbl_loadFile-u''), Log ERROR]) \<and>
   fst (run_queryjob world_down 180 ''ds'' ''tbl'' ''SELECT 1'' 0) = Inr (None, None) \<and>
   sleeps (snd (run_queryjob world_down 180 ''ds'' ''tbl'' ''SELECT 1'' 0)) = [5, 5, 5] \<and>
   fst (run_extractjob world_down 180 ''gs://b/f'' ''ds'' ''tbl'' 0) = Inr (None, None) \<and>
   sleeps (snd (run_extractjob world_down 180 ''gs://b/f'' ''ds'' ''tbl'' 0)) = [5, 5, 5] \<and>
   delete_file_from_gs world_down ''gs://b/f'' 0 =
     (Inr False,
      [Call (GetBucket ''b''), Log WARNING, Sleep 3, Call (GetBucket ''b''), Log WARNING, Sleep 3,
       Call (GetBucket ''b''), Log ERROR]) \<and>
   publish world_publish_down ''p'' ''t'' (Str ''m'') (AttrDict []) 0 =
     (Inr False,
      [Call (GetTopic ''projects/p/topics/t''), Log DEBUG,
       Call (Publish ''projects/p/topics/t'' ''m'' ''{}''), Log ERROR, Sleep 10,
       Call (GetTopic ''projects/p/topics/t''), Log DEBUG,
       Call (Publish ''projects/p/topics/t'' ''m'' ''{}''), Log ERROR, Sleep 10,
       Call (GetTopic ''projects/p/topics/t''), Log DEBUG,
       Call (Publish ''projects/p/topics/t'' ''m'' ''{}''), Log ERROR])"
proof -
  note down = retry_ceiling_exhausted [where w = world_down and gsPathIn = "''gs://b/f''"
      and gsPathOut = "''gs://c/g''" and delete = True and gsPath = "''gs://b/f''"
      and localPath = "''/tmp/f''" and dataset_name = "''ds''" and table_name = "''tbl''"
      and schema_bq = "[]" and timeout = 180 and file_path = "''gs://b/f''"
      and query = "''SELECT 1''" and destination_uris = "''gs://b/f''"]
  note pub = retry_ceiling_exhausted [where w = world_publish_down and project_id = "''p''"
      and topic_name = "''t''" and message = "Str ''m''" and attributes = "AttrDict []"
      and data = "''m''" and attrs = "''{}''"]
  have "move_file_gs world_down ''gs://b/f'' ''gs://c/g'' True 0 =
      (Inr False, exhausted (\<lambda>r. [Call (GetBucket ''b'')]) 3 [Log WARNING, Sleep 3])"
    using down by (simp add: move_down fails_retriably_def retriable_503)
  moreover have "download_file_from_gs world_down ''gs://b/f'' ''/tmp/f'' 0 =
      (Inr False, exhausted (\<lambda>r. [Call (GetBucket ''b'')]) 3 [Log WARNING, Sleep 3])"
    using down by (simp add: download_down fails_retriably_def retriable_503)
  moreover have "upload_file_to_gs world_down ''/tmp/f'' ''gs://b/f'' True 0 =
      (Inr False, exhausted (\<lambda>r. [Call (GetBucket ''b'')]) 3 [Log WARNING, Sleep 3])"
    using down by (simp add: upload_down fails_retriably_def retriable_503)
  moreover have "createwait_table world_down ''ds'' ''tbl'' [] 0 =
      Some (Inr False, exhausted (\<lambda>r. [Call (CreateTable ''ds'' ''tbl'' [])]) 3 [Log WARNING, Sleep 5])"
    using down by (simp add: createwait_down fails_retriably_def retriable_503)
  moreover have "insert_file world_down 180 ''gs://b/f'' ''ds'' ''tbl'' 0 =
      (Inr (None, None),
       exhausted (\<lambda>r. [Call (LoadTableFromUri ''gs://b/f'' ''ds'' ''tbl'' ''ds_tbl_loadFile-u'')]) 3
         [Log WARNING, Sleep 5])"
    using down by (simp add: insert_down fails_retriably_def retriable_503)
  moreover have "run_queryjob world_down 180 ''ds'' ''tbl'' ''SELECT 1'' 0 =
      (Inr (None, None),
       exhausted (\<lambda>r. [Call (Query ''ds_tbl_fromQuery-u'' ''SELECT 1'' ''ds'' ''tbl'')]) 3
         [Log WARNING, Sleep 5])"
    using down by (simp add: query_down fails_retriably_def retriable_503)
  moreover have "run_extractjob world_down 180 ''gs://b/f'' ''ds'' ''tbl'' 0 =
      (Inr (None, None),
       exhausted (\<lambda>r. [Call (ExtractTable ''ds'' ''tbl'' ''gs://b/f'' ''ds_tbl_extractTable-u'')]) 3
         [Log WARNING, Sleep 5])"
    using down by (simp add: extract_down fails_retriably_def retriable_503)
  moreover have "delete_file_from_gs world_down ''gs://b/f'' 0 =
      (Inr False, exhausted (\<lambda>r. [Call (GetBucket ''b'')]) 2 [Log WARNING, Sleep 3])"
    using down by (simp add: delete_down fails_retriably_def retriable_503)
  moreover have "publish world_publish_down ''p'' ''t'' (Str ''m'') (AttrDict []) 0 =
      (Inr False,
       exhausted (\<lambda>r. [Call (GetTopic ''projects/p/topics/t''), Log DEBUG,
                       Call (Publish ''projects/p/topics/t'' ''m'' ''{}'')]) 2 [Log ERROR, Sleep 10])"
    using pub by (simp add: publish_setup_down publish_try_down fails_retriably_def retriable_503)
  ultimately show ?thesis
    by (simp add: exhausted_def numeral_3_eq_3 numeral_2_eq_2)
qed

lemma publish_everything_down:
  "publish world_down ''p'' ''t'' (Str ''m'') (AttrDict []) 0 =
     (Inl (OtherError ''503''),
      [Call (GetTopic ''projects/p/topics/t''), Call (CreateTopic ''projects/p/topics/t'')])"
proof -
  have "publish_setup world_down ''p'' ''t'' (Str ''m'') (AttrDict []) 0 =
      (Inl (OtherError ''503''),
       [Call (GetTopic ''projects/p/topics/t''), Call (CreateTopic ''projects/p/topics/t'')])"
    by (simp add: publish_setup_def ensure_topic_def topic_path_def seq_def call_def
          world_down_raises)
  then show ?thesis
    by (subst publish.simps) simp
qed

text \<open>
  Claim C1 against the code. The claim holds for the eight operations whose try block is
  their whole body. It fails for \<open>publish\<close>, the ninth operation it names. Take a service
  that answers every request with the same retriable error, the fault under which each
  of the other eight makes its \<open>C + 1\<close> attempts. In \<open>publish\<close> the lookup of the topic
  fails, the bare handler calls \<open>create_topic\<close>, and that call fails outside every try
  block: \<open>publish\<close> makes one attempt, never sleeps, and the error reaches the caller
  where the docstring promises \<open>False\<close>. The three attempts, the two sleeps of 10 seconds
  and the result \<open>False\<close> appear only when the topic requests are served and the call that
  publishes alone fails.
\<close>

theorem publish_fault_on_every_request:
  "(\<forall>r k c. raises world_down r k c = Some (OtherError ''503'')) \<and>
   retriable (OtherError ''503'') \<and>
   publish world_down ''p'' ''t'' (Str ''m'') (AttrDict []) 0 =
     (Inl (OtherError ''503''),
      [Call (GetTopic ''projects/p/topics/t''), Call (CreateTopic ''projects/p/topics/t'')]) \<and>
   sleeps (snd (publish world_down ''p'' ''t'' (Str ''m'') (AttrDict []) 0)) = [] \<and>
   delete_file_from_gs world_down ''gs://b/f'' 0 =
     (Inr False,
      [Call (GetBucket ''b''), Log WARNING, Sleep 3, Call (GetBucket ''b''), Log WARNING, Sleep 3,
       Call (GetBucket ''b''), Log ERROR]) \<and>
   publish world_publish_down ''p'' ''t'' (Str ''m'') (AttrDict []) 0 =
     (Inr False,
      [Call (GetTopic ''projects/p/topics/t''), Log DEBUG,
       Call (Publish ''projects/p/topics/t'' ''m'' ''{}''), Log ERROR, Sleep 10,
       Call (GetTopic ''projects/p/topics/t''), Log DEBUG,
       Call (Publish ''projects/p/topics/t'' ''m'' ''{}''), Log ERROR, Sleep 10,
       Call (GetTopic ''projects/p/topics/t''), Log DEBUG,
       Call (Publish ''projects/p/topics/t'' ''m'' ''{}''), Log ERROR])"
proof -
  have "delete_file_from_gs world_down ''gs://b/f'' 0 =
      (Inr False, exhausted (\<lambda>r. [Call (GetBucket ''b'')]) 2 [Log WARNING, Sleep 3])"
    using delete_file_from_gs_exhausted [of world_down "''gs://b/f''"]
    by (simp add: delete_down fails_retriably_def retriable_503)
  then show ?thesis
    by (simp add: world_down_raises retriable_503 publish_everything_down publish_down
          exhausted_def numeral_2_eq_2)
qed

section \<open>The not-found failure class\<close>

lemma sleeps_append [simp]: "sleeps (a @ b) = sleeps a @ sleeps b"
  by (induction a rule: sleeps.induct) simp_all

lemma sleeps_call [simp]: "sleeps (snd (call w r k c)) = []"
  by (simp add: call_def split: option.splits)

lemma sleeps_seq:
  assumes "sleeps (snd m) = []" and "\<And>x. sleeps (snd (f x)) = []"
  shows "sleeps (snd (seq m f)) = []"
proof (cases m)
  case (Pair r ev)
  show ?thesis
  proof (cases r)
    case (Inl e)
    with Pair assms(1) show ?thesis by (simp add: seq_def)
  next
    case (Inr x)
    obtain r' ev' where f: "f x = (r', ev')" by (cases "f x")
    with assms(2) [of x] have "sleeps ev' = []" by simp
    with Pair Inr f assms(1) show ?thesis by (simp add: seq_def)
  qed
qed

lemma sleeps_move_file_gs_attempt: "sleeps (snd (move_file_gs_attempt w gi go d r)) = []"
  by (auto simp: move_file_gs_attempt_def split: prod.splits intro!: sleeps_seq)

lemma sleeps_download_file_from_gs_attempt:
  "sleeps (snd (download_file_from_gs_attempt w gsPath localPath r)) = []"
  by (auto simp: download_file_from_gs_attempt_def split: prod.splits intro!: sleeps_seq)

lemma sleeps_delete_file_from_gs_attempt:
  "sleeps (snd (delete_file_from_gs_attempt w gsPath r)) = []"
  by (auto simp: delete_file_from_gs_attempt_def split: prod.splits intro!: sleeps_seq)

lemma sleeps_rename_gs_attempt:
  "sleeps (snd (rename_gs_attempt w gsPath newName)) = []"
  by (auto simp: rename_gs_attempt_def split: prod.splits intro!: sleeps_seq)

lemma move_file_gs_NotFound:
  assumes "fst (move_file_gs_attempt w gsPathIn gsPathOut delete r) = Inl NotFound"
  shows "move_file_gs w gsPathIn gsPathOut delete r =
           (Inr False, snd (move_file_gs_attempt w gsPathIn gsPathOut delete r) @ [Log WARNING])"
  using assms
  by (subst move_file_gs.simps)
     (cases "move_file_gs_attempt w gsPathIn gsPathOut delete r", simp)

lemma download_file_from_gs_NotFound:
  assumes "fst (download_file_from_gs_attempt w gsPath localPath r) = Inl NotFound"
  shows "download_file_from_gs w gsPath localPath r =
           (Inr False, snd (download_file_from_gs_attempt w gsPath localPath r) @ [Log WARNING])"
  using assms
  by (subst download_file_from_gs.simps)
     (cases "download_file_from_gs_attempt w gsPath localPath r", simp)

lemma delete_file_from_gs_NotFound:
  assumes "fst (delete_file_from_gs_attempt w gsPath r) = Inl NotFound"
  shows "delete_file_from_gs w gsPath r =
           (Inr False, snd (delete_file_from_gs_attempt w gsPath r) @ [Log WARNING])"
  using assms
  by (subst delete_file_from_gs.simps)
     (cases "delete_file_from_gs_attempt w gsPath r", simp)

lemma rename_gs_NotFound:
  assumes "fst (rename_gs_attempt w gsPath newName) = Inl NotFound"
  shows "rename_gs w gsPath newName =
           (Inr None, snd (rename_gs_attempt w gsPath newName) @ [Log ERROR])"
  using assms
  by (cases "rename_gs_attempt w gsPath newName") (simp add: rename_gs_def)

text \<open>
  Claim C3, as the code has it. In \<open>move_file_gs\<close>, \<open>copy_file_gs\<close>,
  \<open>download_file_from_gs\<close> and \<open>delete_file_from_gs\<close> a \<open>NotFound\<close> raised by the try block
  of any attempt ends the call at once: one WARNING line, the result \<open>False\<close>, no further
  attempt and no sleep. \<open>rename_gs\<close> ends at once as well, with its sentinel and no sleep,
  but its only handler logs at ERROR.
\<close>

theorem not_found_is_not_retried:
  "(fst (move_file_gs_attempt w gsPathIn gsPathOut delete r) = Inl NotFound \<longrightarrow>
      move_file_gs w gsPathIn gsPathOut delete r =
        (Inr False, snd (move_file_gs_attempt w gsPathIn gsPathOut delete r) @ [Log WARNING]) \<and>
      sleeps (snd (move_file_gs w gsPathIn gsPathOut delete r)) = []) \<and>
   (fst (move_file_gs_attempt w gsPathIn gsPathOut False 0) = Inl NotFound \<longrightarrow>
      copy_file_gs w gsPathIn gsPathOut =
        (Inr False, snd (move_file_gs_attempt w gsPathIn gsPathOut False 0) @ [Log WARNING]) \<and>
      sleeps (snd (copy_file_gs w gsPathIn gsPathOut)) = []) \<and>
   (fst (download_file_from_gs_attempt w gsPath localPath r) = Inl NotFound \<longrightarrow>
      download_file_from_gs w gsPath localPath r =
        (Inr False, snd (download_file_from_gs_attempt w gsPath localPath r) @ [Log WARNING]) \<and>
      sleeps (snd (download_file_from_gs w gsPath localPath r)) = []) \<and>
   (fst (delete_file_from_gs_attempt w gsPath r) = Inl NotFound \<longrightarrow>
      delete_file_from_gs w gsPath r =
        (Inr False, snd (delete_file_from_gs_attempt w gsPath r) @ [Log WARNING]) \<and>
      sleeps (snd (delete_file_from_gs w gsPath r)) = []) \<and>
   (fst (rename_gs_attempt w gsPath newName) = Inl NotFound \<longrightarrow>
      rename_gs w gsPath newName =
        (Inr None, snd (rename_gs_attempt w gsPath newName) @ [Log ERROR]) \<and>
      sleeps (snd (rename_gs w gsPath newName)) = [])"
  by (simp add: move_file_gs_NotFound download_file_from_gs_NotFound delete_file_from_gs_NotFound
        rename_gs_NotFound copy_file_gs_def sleeps_move_file_gs_attempt
        sleeps_download_file_from_gs_attempt sleeps_delete_file_from_gs_attempt
        sleeps_rename_gs_attempt)

lemma world_notfound_raises: "raises world_notfound r k c = Some NotFound"
  by (simp add: world_notfound_def world_ok_def)

lemma move_notfound:
  "move_file_gs_attempt world_notfound ''gs://b/f'' ''gs://c/g'' d r =
     (Inl NotFound, [Call (GetBucket ''b'')])"
  by (simp add: move_file_gs_attempt_def extract_b_f extract_c_g seq_def call_def world_notfound_raises)

lemma download_notfound:
  "download_file_from_gs_attempt world_notfound ''gs://b/f'' ''/tmp/f'' r =
     (Inl NotFound, [Call (GetBucket ''b'')])"
  by (simp add: download_file_from_gs_attempt_def extract_b_f seq_def call_def world_notfound_raises)

lemma delete_notfound:
  "delete_file_from_gs_attempt world_notfound ''gs://b/f'' r =
     (Inl NotFound, [Call (GetBucket ''b'')])"
  by (simp add: delete_file_from_gs_attempt_def extract_b_f seq_def call_def world_notfound_raises)

lemma rename_notfound:
  "rename_gs_attempt world_notfound ''gs://b/f'' ''g'' =
     (Inl NotFound, [Call (GetBucket ''b'')])"
  by (simp add: rename_gs_attempt_def extract_b_f seq_def call_def world_notfound_raises)

lemma upload_notfound:
  "upload_file_to_gs_attempt world_notfound ''/tmp/f'' ''gs://b/f'' False r =
     (Inl NotFound, [Call (GetBucket ''b'')])"
  by (simp add: upload_file_to_gs_attempt_def extract_b_f seq_def call_def world_notfound_raises)

theorem not_found_is_not_retried_witness:
  "move_file_gs world_notfound ''gs://b/f'' ''gs://c/g'' True 0 =
     (Inr False, [Call (GetBucket ''b''), Log WARNING]) \<and>
   copy_file_gs world_notfound ''gs://b/f'' ''gs://c/g'' =
     (Inr False, [Call (GetBucket ''b''), Log WARNING]) \<and>
   download_file_from_gs world_notfound ''gs://b/f'' ''/tmp/f'' 0 =
     (Inr False, [Call (GetBucket ''b''), Log WARNING]) \<and>
   delete_file_from_gs world_notfound ''gs://b/f'' 0 =
     (Inr False, [Call (GetBucket ''b''), Log WARNING]) \<and>
   rename_gs world_notfound ''gs://b/f'' ''g'' =
     (Inr None, [Call (GetBucket ''b''), Log ERROR])"
  using not_found_is_not_retried [where w = world_notfound and gsPathIn = "''gs://b/f''"
      and gsPathOut = "''gs://c/g''" and delete = True and r = 0 and gsPath = "''gs://b/f''"
      and localPath = "''/tmp/f''" and newName = "''g''"]
  by (simp add: move_notfound download_notfound delete_notfound rename_notfound)

text \<open>
  The claim as stated also names \<open>upload_file_to_gs\<close> and promises a WARNING line for
  \<open>rename_gs\<close>. \<open>upload_file_to_gs\<close> has no handler for \<open>NotFound\<close>: with a bucket that does
  not exist it retries three times and sleeps three times. \<open>rename_gs\<close> logs at ERROR.
\<close>

theorem not_found_counterexample:
  "fst (upload_file_to_gs_attempt world_notfound ''/tmp/f'' ''gs://b/f'' False 0) = Inl NotFound \<and>
   upload_file_to_gs world_notfound ''/tmp/f'' ''gs://b/f'' False 0 =
     (Inr False,
      [Call (GetBucket ''b''), Log WARNING, Sleep 3, Call (GetBucket ''b''), Log WARNING, Sleep 3,
       Call (GetBucket ''b''), Log WARNING, Sleep 3, Call (GetBucket ''b''), Log ERROR]) \<and>
   fst (rename_gs_attempt world_notfound ''gs://b/f'' ''g'') = Inl NotFound \<and>
   rename_gs world_notfound ''gs://b/f'' ''g'' = (Inr None, [Call (GetBucket ''b''), Log ERROR])"
  by (simp add: upload_file_to_gs.simps upload_notfound rename_gs_def rename_notfound)

section \<open>Creation of tables, topics and subscriptions\<close>

lemma wait_table_succeeds:
  "raises w r (Suc (k + n)) (GetTable d t) = None \<Longrightarrow>
   (\<forall>j<n. raises w r (Suc (k + j)) (GetTable d t) \<noteq> None) \<Longrightarrow>
   wait_table w r d t k =
     Some (concat (replicate n [Call (GetTable d t), Sleep 5]) @ [Call (GetTable d t)])"
proof (induction n arbitrary: k)
  case 0
  then show ?case by (subst wait_table.simps) simp
next
  case (Suc n)
  from Suc.prems(2) have fail: "raises w r (Suc k) (GetTable d t) \<noteq> None"
    by (auto dest: spec [of _ 0])
  have "wait_table w r d t (Suc k) =
      Some (concat (replicate n [Call (GetTable d t), Sleep 5]) @ [Call (GetTable d t)])"
  proof (rule Suc.IH)
    show "raises w r (Suc (Suc k + n)) (GetTable d t) = None"
      using Suc.prems(1) by simp
    show "\<forall>j<n. raises w r (Suc (Suc k + j)) (GetTable d t) \<noteq> None"
      using Suc.prems(2) by (auto dest: spec [of _ "Suc j" for j])
  qed
  with fail show ?case by (subst wait_table.simps) simp
qed

lemma wait_table_returns:
  "wait_table w r d t k = Some ev \<Longrightarrow>
   \<exists>n. raises w r (Suc (k + n)) (GetTable d t) = None \<and>
       (\<forall>j<n. raises w r (Suc (k + j)) (GetTable d t) \<noteq> None) \<and>
       ev = concat (replicate n [Call (GetTable d t), Sleep 5]) @ [Call (GetTable d t)]"
proof (induction w r d t k ev rule: wait_table.raw_induct [rotated 1, consumes 1, case_names step])
  case (step wait w r d t k ev)
  note 1 = step
  show ?case
  proof (cases "raises w r (Suc k) (GetTable d t) = None")
    case True
    with 1(2) have "ev = [Call (GetTable d t)]" by simp
    with True show ?thesis by (intro exI [of _ 0]) simp
  next
    case False
    with 1(2) obtain ev' where w': "wait w r d t (Suc k) = Some ev'"
      and ev: "ev = [Call (GetTable d t), Sleep 5] @ ev'"
      by (auto simp: bind_eq_Some_conv)
    from 1(1) [OF w'] obtain n where n: "raises w r (Suc (Suc k + n)) (GetTable d t) = None"
      "\<forall>j<n. raises w r (Suc (Suc k + j)) (GetTable d t) \<noteq> None"
      "ev' = concat (replicate n [Call (GetTable d t), Sleep 5]) @ [Call (GetTable d t)]"
      by blast
    have "\<forall>j<Suc n. raises w r (Suc (k + j)) (GetTable d t) \<noteq> None"
    proof (intro allI impI)
      fix j assume "j < Suc n"
      show "raises w r (Suc (k + j)) (GetTable d t) \<noteq> None"
      proof (cases j)
        case 0
        with False show ?thesis by simp
      next
        case (Suc i)
        with \<open>j < Suc n\<close> n(2) show ?thesis by simp
      qed
    qed
    with n(1,3) ev show ?thesis by (intro exI [of _ "Suc n"]) simp
  qed
qed

lemma wait_table_diverges:
  assumes "\<forall>k. raises w r (Suc k) (GetTable d t) \<noteq> None"
  shows "wait_table w r d t 0 = None"
proof (cases "wait_table w r d t 0")
  case None
  then show ?thesis .
next
  case (Some ev)
  from wait_table_returns [OF Some] assms show ?thesis by auto
qed

lemma createwait_table_created:
  assumes "raises w r 0 (CreateTable d t sch) = None"
  shows "createwait_table w d t sch r =
           map_option (\<lambda>ev. (Inr True, Call (CreateTable d t sch) # ev @ [Log INFO]))
             (wait_table w r d t 0)"
proof (cases "wait_table w r d t 0")
  case None
  with assms have "createwait_table_attempt w d t sch r = None"
    by (simp add: createwait_table_attempt_def call_def)
  with None show ?thesis by (subst createwait_table.simps) simp
next
  case (Some ev)
  with assms have "createwait_table_attempt w d t sch r =
      Some (Inr True, Call (CreateTable d t sch) # ev @ [Log INFO])"
    by (simp add: createwait_table_attempt_def call_def)
  with Some show ?thesis by (subst createwait_table.simps) simp
qed


text \<open>
  Claim C10. After a successful create call nothing bounds the checks of
  \<open>createwait_table\<close>: if every \<open>get_table\<close> fails the call never returns; if the first \<open>n\<close>
  checks fail and the next succeeds, for any \<open>n\<close>, it sleeps 5 seconds after each failed
  check and returns \<open>True\<close>; and it returns only if some check succeeds.
\<close>

theorem createwait_table_confirmation_unbounded:
  "(raises w r 0 (CreateTable d t sch) = None \<and>
    (\<forall>k. raises w r (Suc k) (GetTable d t) \<noteq> None) \<longrightarrow>
      createwait_table w d t sch r = None) \<and>
   (raises w r 0 (CreateTable d t sch) = None \<and>
    raises w r (Suc n) (GetTable d t) = None \<and>
    (\<forall>j<n. raises w r (Suc j) (GetTable d t) \<noteq> None) \<longrightarrow>
      createwait_table w d t sch r =
        Some (Inr True,
              Call (CreateTable d t sch) #
              concat (replicate n [Call (GetTable d t), Sleep 5]) @
              [Call (GetTable d t), Log INFO])) \<and>
   (raises w r 0 (CreateTable d t sch) = None \<and> createwait_table w d t sch r \<noteq> None \<longrightarrow>
      (\<exists>k. raises w r (Suc k) (GetTable d t) = None))"
proof (intro conjI impI)
  assume "raises w r 0 (CreateTable d t sch) = None \<and>
    (\<forall>k. raises w r (Suc k) (GetTable d t) \<noteq> None)"
  then show "createwait_table w d t sch r = None"
    by (simp add: createwait_table_created wait_table_diverges)
next
  assume a: "raises w r 0 (CreateTable d t sch) = None \<and>
    raises w r (Suc n) (GetTable d t) = None \<and>
    (\<forall>j<n. raises w r (Suc j) (GetTable d t) \<noteq> None)"
  then have "wait_table w r d t 0 =
      Some (concat (replicate n [Call (GetTable d t), Sleep 5]) @ [Call (GetTable d t)])"
    using wait_table_succeeds [of w r 0 n d t] by simp
  with a show "createwait_table w d t sch r =
        Some (Inr True,
              Call (CreateTable d t sch) #
              concat (replicate n [Call (GetTable d t), Sleep 5]) @
              [Call (GetTable d t), Log INFO])"
    by (simp add: createwait_table_created)
next
  assume a: "raises w r 0 (CreateTable d t sch) = None \<and> createwait_table w d t sch r \<noteq> None"
  then obtain ev where "wait_table w r d t 0 = Some ev"
    by (auto simp: createwait_table_created)
  from wait_table_returns [OF this] show "\<exists>k. raises w r (Suc k) (GetTable d t) = None"
    by auto
qed

theorem createwait_table_confirmation_unbounded_witness:
  "createwait_table world_invisible ''ds'' ''tbl'' [] 0 = None \<and>
   createwait_table world_lag ''ds'' ''tbl'' [] 0 =
     Some (Inr True,
           [Call (CreateTable ''ds'' ''tbl'' []),
            Call (GetTable ''ds'' ''tbl''), Sleep 5,
            Call (GetTable ''ds'' ''tbl''), Sleep 5,
            Call (GetTable ''ds'' ''tbl''), Log INFO]) \<and>
   (\<exists>k. raises world_lag 0 (Suc k) (GetTable ''ds'' ''tbl'') = None)"
proof -
  have "createwait_table world_invisible ''ds'' ''tbl'' [] 0 = None"
    using createwait_table_confirmation_unbounded
      [where w = world_invisible and r = 0 and d = "''ds''" and t = "''tbl''" and sch = "[]"]
    by (simp add: world_invisible_def world_ok_def)
  moreover have "createwait_table world_lag ''ds'' ''tbl'' [] 0 =
     Some (Inr True,
           Call (CreateTable ''ds'' ''tbl'' []) #
           concat (replicate 2 [Call (GetTable ''ds'' ''tbl''), Sleep 5]) @
           [Call (GetTable ''ds'' ''tbl''), Log INFO])"
    using createwait_table_confirmation_unbounded
      [where w = world_lag and r = 0 and d = "''ds''" and t = "''tbl''" and sch = "[]" and n = 2]
    by (simp add: world_lag_def world_ok_def)
  moreover from this have "\<exists>k. raises world_lag 0 (Suc k) (GetTable ''ds'' ''tbl'') = None"
    using createwait_table_confirmation_unbounded
      [where w = world_lag and r = 0 and d = "''ds''" and t = "''tbl''" and sch = "[]"]
    by (simp add: world_lag_def world_ok_def)
  ultimately show ?thesis by (simp add: numeral_2_eq_2)
qed

lemma ensure_topic_cases:
  "ensure_topic w r tp =
     (case raises w r 0 (GetTopic tp) of
        None \<Rightarrow> (Inr (), [Call (GetTopic tp)])
      | Some _ \<Rightarrow>
          (case raises w r 1 (CreateTopic tp) of
             None \<Rightarrow> (Inr (), [Call (GetTopic tp), Call (CreateTopic tp)])
           | Some e \<Rightarrow> (Inl e, [Call (GetTopic tp), Call (CreateTopic tp)])))"
  by (simp add: ensure_topic_def call_def split: option.splits)

lemma publish_payload_events:
  "snd (publish_payload w m a) = [] \<or> snd (publish_payload w m a) = [Log ERROR]"
  by (simp add: publish_payload_def encode_utf8_def dumps_def seq_def
        split: pyarg.splits attributes.splits)

lemma publish_setup_events:
  "\<exists>rest. snd (publish_setup w p t m a r) = snd (ensure_topic w r (topic_path p t)) @ rest \<and>
          lookups rest = [] \<and> creations rest = [] \<and>
          (\<not> isl (fst (ensure_topic w r (topic_path p t))) \<longrightarrow> take 1 rest = [Log DEBUG])"
  using publish_payload_events [of w m a]
  by (cases "ensure_topic w r (topic_path p t)"; cases "fst (ensure_topic w r (topic_path p t))";
      cases "publish_payload w m a")
     (auto simp: publish_setup_def seq_def)

lemma lookups_append [simp]: "lookups (a @ b) = lookups a @ lookups b"
  by (induction a rule: lookups.induct) simp_all

lemma creations_append [simp]: "creations (a @ b) = creations a @ creations b"
  by (induction a rule: creations.induct) simp_all

lemma publish_setup_lookups:
  "lookups (snd (publish_setup w p t m a r)) = [GetTopic (topic_path p t)]"
proof -
  obtain rest where "snd (publish_setup w p t m a r) = snd (ensure_topic w r (topic_path p t)) @ rest"
    and "lookups rest = []"
    using publish_setup_events by blast
  then show ?thesis
    by (simp add: ensure_topic_cases split: option.splits)
qed


lemma publish_try_events:
  "lookups (snd (publish_try w p t data attrs r)) = [] \<and>
   creations (snd (publish_try w p t data attrs r)) = []"
  by (simp add: publish_try_def seq_def call_def split: option.splits)

lemma publish_trace_prefix:
  "\<exists>rest. snd (publish w p t m a r) = snd (publish_setup w p t m a r) @ rest"
  by (subst publish.simps)
     (auto split: prod.splits sum.splits)



lemma publish_lookups:
  "\<exists>n. 1 \<le> n \<and> n \<le> max 1 (3 - r) \<and>
       lookups (snd (publish w p t m a r)) = replicate n (GetTopic (topic_path p t))"
proof (induction w p t m a r rule: publish.induct)
  case (1 w p t m a retry)
  obtain res ev where s: "publish_setup w p t m a retry = (res, ev)"
    by (cases "publish_setup w p t m a retry")
  have lev: "lookups ev = [GetTopic (topic_path p t)]"
    using publish_setup_lookups [of w p t m a retry] s by simp
  show ?case
  proof (cases res)
    case (Inl e)
    with s lev have "lookups (snd (publish w p t m a retry)) = replicate 1 (GetTopic (topic_path p t))"
      by (subst publish.simps) simp
    then show ?thesis by (intro exI [of _ 1]) simp
  next
    case (Inr da)
    obtain data attrs where da: "da = (data, attrs)" by (cases da)
    obtain res1 ev1 where y: "publish_try w p t data attrs retry = (res1, ev1)"
      by (cases "publish_try w p t data attrs retry")
    have lev1: "lookups ev1 = []"
      using publish_try_events [of w p t data attrs retry] y by simp
    show ?thesis
    proof (cases res1)
      case v: (Inr v)
      with s Inr da y lev lev1
      have "lookups (snd (publish w p t m a retry)) = replicate 1 (GetTopic (topic_path p t))"
        by (subst publish.simps) simp
      then show ?thesis by (intro exI [of _ 1]) simp
    next
      case e: (Inl e)
      show ?thesis
      proof (cases "is_Exception e \<and> retry < 2")
        case c: True
        have "\<exists>n. 1 \<le> n \<and> n \<le> max 1 (3 - (retry + 1)) \<and>
            lookups (snd (publish w p t m a (retry + 1))) = replicate n (GetTopic (topic_path p t))"
          by (rule "1.IH" [OF s [symmetric] Inr da [symmetric] y [symmetric] e]) (use c in simp_all)
        then obtain n where n: "1 \<le> n" "n \<le> max 1 (3 - (retry + 1))"
          "lookups (snd (publish w p t m a (retry + 1))) = replicate n (GetTopic (topic_path p t))"
          by blast
        from s Inr da y e c lev lev1 n(3)
        have "lookups (snd (publish w p t m a retry)) = replicate (Suc n) (GetTopic (topic_path p t))"
          by (subst publish.simps) (cases "publish w p t m a (retry + 1)", simp)
        moreover have "Suc n \<le> max 1 (3 - retry)" using n(2) c by auto
        ultimately show ?thesis by (intro exI [of _ "Suc n"]) simp
      next
        case False
        with s Inr da y e lev lev1
        have "lookups (snd (publish w p t m a retry)) = replicate 1 (GetTopic (topic_path p t))"
          by (subst publish.simps) auto
        then show ?thesis by (intro exI [of _ 1]) simp
      qed
    qed
  qed
qed

lemma publish_created_goes_on:
  assumes "raises w r 0 (GetTopic (topic_path p t)) \<noteq> None"
    and "raises w r 1 (CreateTopic (topic_path p t)) = None"
  shows "take 3 (snd (publish w p t m a r)) =
     [Call (GetTopic (topic_path p t)), Call (CreateTopic (topic_path p t)), Log DEBUG]"
proof -
  from assms(1) obtain e where e: "raises w r 0 (GetTopic (topic_path p t)) = Some e" by auto
  have en: "ensure_topic w r (topic_path p t) =
      (Inr (), [Call (GetTopic (topic_path p t)), Call (CreateTopic (topic_path p t))])"
    using e assms(2) by (simp add: ensure_topic_cases)
  obtain rest where 1: "snd (publish w p t m a r) = snd (publish_setup w p t m a r) @ rest"
    using publish_trace_prefix by blast
  obtain rest' where 2: "snd (publish_setup w p t m a r) = snd (ensure_topic w r (topic_path p t)) @ rest'"
    and 3: "\<not> isl (fst (ensure_topic w r (topic_path p t))) \<longrightarrow> take 1 rest' = [Log DEBUG]"
    using publish_setup_events by blast
  from 3 en obtain rest'' where "rest' = Log DEBUG # rest''"
    by (cases rest') auto
  then show ?thesis
    unfolding 1 2 by (simp add: en)
qed


lemma publish_try_succeeds:
  assumes "raises w r 2 (Publish (topic_path p t) data attrs) = None"
  shows "publish_try w p t data attrs r =
     (Inr True, [Call (Publish (topic_path p t) data attrs), Log INFO])"
  using assms by (simp add: publish_try_def seq_def call_def)

lemma publish_topic_created:
  assumes "raises w r 0 (GetTopic (topic_path p t)) \<noteq> None"
    and "raises w r 1 (CreateTopic (topic_path p t)) = None"
    and "publish_payload w m a = (Inr (data, attrs), evp)"
    and "raises w r 2 (Publish (topic_path p t) data attrs) = None"
  shows "publish w p t m a r =
     (Inr True,
      [Call (GetTopic (topic_path p t)), Call (CreateTopic (topic_path p t)), Log DEBUG] @ evp @
      [Call (Publish (topic_path p t) data attrs), Log INFO])"
proof -
  from assms(1) obtain e where e: "raises w r 0 (GetTopic (topic_path p t)) = Some e" by auto
  have s: "publish_setup w p t m a r =
      (Inr (data, attrs),
       [Call (GetTopic (topic_path p t)), Call (CreateTopic (topic_path p t)), Log DEBUG] @ evp)"
    using e assms(2,3) by (simp add: publish_setup_def ensure_topic_cases seq_def)
  show ?thesis
    by (subst publish.simps) (simp add: s publish_try_succeeds [OF assms(4)])
qed



lemma subscribe_first_request:
  "take 1 (snd (subscribe g w p t s)) = [Call (GetSubscription (subscription_path p s))] \<and>
   lookups (snd (subscribe g w p t s)) = [GetSubscription (subscription_path p s)]"
  by (simp add: subscribe_def ensure_subscription_def call_def Let_def
        split: wait_outcome.splits option.splits)


lemma subscribe_subscription_created:
  assumes "raises w 0 0 (GetSubscription (subscription_path p s)) \<noteq> None"
    and "raises w 0 1 (CreateSubscription (subscription_path p s) (topic_path p t)) = None"
  shows "take 4 (snd (subscribe True w p t s)) =
           [Call (GetSubscription (subscription_path p s)),
            Call (CreateSubscription (subscription_path p s) (topic_path p t)), Log DEBUG,
            Call (Subscribe (subscription_path p s))]"
  using assms
  by (auto simp: subscribe_def ensure_subscription_def call_def Let_def
        split: wait_outcome.splits option.splits)








text \<open>
  Claim C5, as the code has it. In \<open>createwait_table\<close>, once the create call has
  succeeded, \<open>True\<close> is returned only after a \<open>get_table\<close> check has succeeded: the checks
  follow the creation, 5 seconds apart, and the successful one is the last request.
  \<open>publish\<close> and \<open>subscribe\<close> never confirm a creation. Each attempt of \<open>publish\<close>, and
  \<open>subscribe\<close>, makes exactly one lookup, as its first request and before any creation.
  When that lookup raises and the creation call returns (in \<open>subscribe\<close>: with the name
  \<open>publisher_client\<close> bound), the call goes on to its DEBUG line without a second lookup,
  \<open>subscribe\<close> then to the subscribe request; \<open>publish\<close> returns \<open>True\<close> if, further, the
  message encodes, the attributes serialise and the call that publishes returns. A retry
  of \<open>publish\<close> after a failed call that publishes is a new attempt and starts with a new
  lookup: one call of \<open>publish\<close> makes between one and three lookups, all of them of the
  topic.
\<close>

theorem creation_when_resource_missing:
  "(raises w r 0 (CreateTable d t sch) = None \<and> createwait_table w d t sch r = Some (res, ev) \<longrightarrow>
      res = Inr True \<and>
      (\<exists>n. raises w r (Suc n) (GetTable d t) = None \<and>
           ev = Call (CreateTable d t sch) #
                concat (replicate n [Call (GetTable d t), Sleep 5]) @
                [Call (GetTable d t), Log INFO])) \<and>
   lookups (snd (publish_setup w p tn m a r)) = [GetTopic (topic_path p tn)] \<and>
   lookups (snd (publish_try w p tn data attrs r)) = [] \<and>
   (raises w r 0 (GetTopic (topic_path p tn)) \<noteq> None \<and>
    raises w r 1 (CreateTopic (topic_path p tn)) = None \<longrightarrow>
      take 3 (snd (publish w p tn m a r)) =
        [Call (GetTopic (topic_path p tn)), Call (CreateTopic (topic_path p tn)), Log DEBUG]) \<and>
   (raises w r 0 (GetTopic (topic_path p tn)) \<noteq> None \<and>
    raises w r 1 (CreateTopic (topic_path p tn)) = None \<and>
    publish_payload w m a = (Inr (data, attrs), evp) \<and>
    raises w r 2 (Publish (topic_path p tn) data attrs) = None \<longrightarrow>
      publish w p tn m a r =
        (Inr True,
         [Call (GetTopic (topic_path p tn)), Call (CreateTopic (topic_path p tn)), Log DEBUG] @
         evp @ [Call (Publish (topic_path p tn) data attrs), Log INFO])) \<and>
   (\<exists>n. 1 \<le> n \<and> n \<le> max 1 (3 - r) \<and>
        lookups (snd (publish w p tn m a r)) = replicate n (GetTopic (topic_path p tn))) \<and>
   lookups (snd (subscribe g w p tn s)) = [GetSubscription (subscription_path p s)] \<and>
   (raises w 0 0 (GetSubscription (subscription_path p s)) \<noteq> None \<and>
    raises w 0 1 (CreateSubscription (subscription_path p s) (topic_path p tn)) = None \<longrightarrow>
      take 4 (snd (subscribe True w p tn s)) =
        [Call (GetSubscription (subscription_path p s)),
         Call (CreateSubscription (subscription_path p s) (topic_path p tn)), Log DEBUG,
         Call (Subscribe (subscription_path p s))])"
proof -
  have c1: "raises w r 0 (CreateTable d t sch) = None \<and>
      createwait_table w d t sch r = Some (res, ev) \<longrightarrow>
      res = Inr True \<and>
      (\<exists>n. raises w r (Suc n) (GetTable d t) = None \<and>
           ev = Call (CreateTable d t sch) #
                concat (replicate n [Call (GetTable d t), Sleep 5]) @
                [Call (GetTable d t), Log INFO])"
  proof
    assume a: "raises w r 0 (CreateTable d t sch) = None \<and>
      createwait_table w d t sch r = Some (res, ev)"
    then obtain ev' where w: "wait_table w r d t 0 = Some ev'"
      and res: "res = Inr True" and ev: "ev = Call (CreateTable d t sch) # ev' @ [Log INFO]"
      by (auto simp: createwait_table_created)
    from wait_table_returns [OF w] ev
    have "\<exists>n. raises w r (Suc n) (GetTable d t) = None \<and>
           ev = Call (CreateTable d t sch) #
                concat (replicate n [Call (GetTable d t), Sleep 5]) @
                [Call (GetTable d t), Log INFO]"
      by auto
    with res show "res = Inr True \<and>
      (\<exists>n. raises w r (Suc n) (GetTable d t) = None \<and>
           ev = Call (CreateTable d t sch) #
                concat (replicate n [Call (GetTable d t), Sleep 5]) @
                [Call (GetTable d t), Log INFO])"
      by simp
  qed
  have c2: "lookups (snd (publish_setup w p tn m a r)) = [GetTopic (topic_path p tn)]"
    by (rule publish_setup_lookups)
  have c3: "lookups (snd (publish_try w p tn data attrs r)) = []"
    using publish_try_events by blast
  have c4: "raises w r 0 (GetTopic (topic_path p tn)) \<noteq> None \<and>
    raises w r 1 (CreateTopic (topic_path p tn)) = None \<longrightarrow>
      take 3 (snd (publish w p tn m a r)) =
        [Call (GetTopic (topic_path p tn)), Call (CreateTopic (topic_path p tn)), Log DEBUG]"
    using publish_created_goes_on by blast
  have c5: "raises w r 0 (GetTopic (topic_path p tn)) \<noteq> None \<and>
    raises w r 1 (CreateTopic (topic_path p tn)) = None \<and>
    publish_payload w m a = (Inr (data, attrs), evp) \<and>
    raises w r 2 (Publish (topic_path p tn) data attrs) = None \<longrightarrow>
      publish w p tn m a r =
        (Inr True,
         [Call (GetTopic (topic_path p tn)), Call (CreateTopic (topic_path p tn)), Log DEBUG] @
         evp @ [Call (Publish (topic_path p tn) data attrs), Log INFO])"
    using publish_topic_created by blast
  have c6: "\<exists>n. 1 \<le> n \<and> n \<le> max 1 (3 - r) \<and>
        lookups (snd (publish w p tn m a r)) = replicate n (GetTopic (topic_path p tn))"
    by (rule publish_lookups)
  have c7: "lookups (snd (subscribe g w p tn s)) = [GetSubscription (subscription_path p s)]"
    using subscribe_first_request by blast
  have c8: "raises w 0 0 (GetSubscription (subscription_path p s)) \<noteq> None \<and>
    raises w 0 1 (CreateSubscription (subscription_path p s) (topic_path p tn)) = None \<longrightarrow>
      take 4 (snd (subscribe True w p tn s)) =
        [Call (GetSubscription (subscription_path p s)),
         Call (CreateSubscription (subscription_path p s) (topic_path p tn)), Log DEBUG,
         Call (Subscribe (subscription_path p s))]"
    using subscribe_subscription_created by blast
  show ?thesis
    by (intro conjI) (rule c1, rule c2, rule c3, rule c4, rule c5, rule c6, rule c7, rule c8)
qed

lemma createwait_table_world_lag:
  "createwait_table world_lag ''ds'' ''tbl'' [] 0 =
     Some (Inr True,
           [Call (CreateTable ''ds'' ''tbl'' []),
            Call (GetTable ''ds'' ''tbl''), Sleep 5,
            Call (GetTable ''ds'' ''tbl''), Sleep 5,
            Call (GetTable ''ds'' ''tbl''), Log INFO])"
proof -
  have "wait_table world_lag 0 ''ds'' ''tbl'' 0 =
      Some (concat (replicate 2 [Call (GetTable ''ds'' ''tbl''), Sleep 5]) @
            [Call (GetTable ''ds'' ''tbl'')])"
    by (rule wait_table_succeeds) (simp_all add: world_lag_def world_ok_def)
  then show ?thesis
    by (simp add: createwait_table_created world_lag_def world_ok_def numeral_2_eq_2)
qed

lemma world_missing_raises:
  "raises world_missing r k c = (if k = 0 then Some NotFound else None)"
  by (simp add: world_missing_def world_ok_def)

lemma world_missing_payload:
  "publish_payload world_missing (Str ''m'') (AttrDict []) = (Inr (''m'', ''{}''), [])"
  by (simp add: publish_payload_plain world_missing_def world_ok_def)

lemma world_flaky_raises:
  "raises world_flaky r k c =
     (if k = 0 then Some NotFound
      else if k = 2 \<and> r = 0 then Some (OtherError ''503'')
      else None)"
  by (simp add: world_flaky_def world_ok_def)

lemma world_flaky_payload:
  "publish_payload world_flaky (Str ''m'') (AttrDict []) = (Inr (''m'', ''{}''), [])"
  by (simp add: publish_payload_plain world_flaky_def world_ok_def)

lemma publish_world_flaky:
  "publish world_flaky ''p'' ''t'' (Str ''m'') (AttrDict []) 0 =
     (Inr True,
      [Call (GetTopic ''projects/p/topics/t''), Call (CreateTopic ''projects/p/topics/t''),
       Log DEBUG, Call (Publish ''projects/p/topics/t'' ''m'' ''{}''), Log ERROR, Sleep 10,
       Call (GetTopic ''projects/p/topics/t''), Call (CreateTopic ''projects/p/topics/t''),
       Log DEBUG, Call (Publish ''projects/p/topics/t'' ''m'' ''{}''), Log INFO])"
proof -
  have s: "publish_setup world_flaky ''p'' ''t'' (Str ''m'') (AttrDict []) r =
      (Inr (''m'', ''{}''),
       [Call (GetTopic ''projects/p/topics/t''), Call (CreateTopic ''projects/p/topics/t''),
        Log DEBUG])" for r
    by (simp add: publish_setup_def ensure_topic_cases world_flaky_raises world_flaky_payload
          seq_def topic_path_def)
  have t0: "publish_try world_flaky ''p'' ''t'' ''m'' ''{}'' 0 =
      (Inl (OtherError ''503''), [Call (Publish ''projects/p/topics/t'' ''m'' ''{}'')])"
    by (simp add: publish_try_def seq_def call_def world_flaky_raises topic_path_def)
  have 1: "publish world_flaky ''p'' ''t'' (Str ''m'') (AttrDict []) (Suc 0) =
      (Inr True,
       [Call (GetTopic (topic_path ''p'' ''t'')), Call (CreateTopic (topic_path ''p'' ''t'')),
        Log DEBUG] @ [] @ [Call (Publish (topic_path ''p'' ''t'') ''m'' ''{}''), Log INFO])"
    by (rule publish_topic_created) (simp_all add: world_flaky_raises world_flaky_payload)
  have "publish world_flaky ''p'' ''t'' (Str ''m'') (AttrDict []) 0 =
      (fst (publish world_flaky ''p'' ''t'' (Str ''m'') (AttrDict []) (Suc 0)),
       [Call (GetTopic ''projects/p/topics/t''), Call (CreateTopic ''projects/p/topics/t''),
        Log DEBUG] @
       snd (publish_try world_flaky ''p'' ''t'' ''m'' ''{}'' 0) @ [Log ERROR, Sleep 10] @
       snd (publish world_flaky ''p'' ''t'' (Str ''m'') (AttrDict []) (Suc 0)))"
    by (rule publish_retry [OF s])
       (simp_all add: t0 fails_retriably_def retriable_503)
  then show ?thesis
    by (simp add: 1 t0 topic_path_def)
qed

theorem creation_when_resource_missing_witness:
  "createwait_table world_lag ''ds'' ''tbl'' [] 0 =
     Some (Inr True,
           [Call (CreateTable ''ds'' ''tbl'' []),
            Call (GetTable ''ds'' ''tbl''), Sleep 5,
            Call (GetTable ''ds'' ''tbl''), Sleep 5,
            Call (GetTable ''ds'' ''tbl''), Log INFO]) \<and>
   (\<exists>n. raises world_lag 0 (Suc n) (GetTable ''ds'' ''tbl'') = None \<and>
        [Call (CreateTable ''ds'' ''tbl'' []),
         Call (GetTable ''ds'' ''tbl''), Sleep 5,
         Call (GetTable ''ds'' ''tbl''), Sleep 5,
         Call (GetTable ''ds'' ''tbl''), Log INFO] =
        Call (CreateTable ''ds'' ''tbl'' []) #
        concat (replicate n [Call (GetTable ''ds'' ''tbl''), Sleep 5]) @
        [Call (GetTable ''ds'' ''tbl''), Log INFO]) \<and>
   publish world_missing ''p'' ''t'' (Str ''m'') (AttrDict []) 0 =
     (Inr True,
      [Call (GetTopic ''projects/p/topics/t''), Call (CreateTopic ''projects/p/topics/t''),
       Log DEBUG, Call (Publish ''projects/p/topics/t'' ''m'' ''{}''), Log INFO]) \<and>
   take 3 (snd (publish world_flaky ''p'' ''t'' (Str ''m'') (AttrDict []) 0)) =
     [Call (GetTopic ''projects/p/topics/t''), Call (CreateTopic ''projects/p/topics/t''),
      Log DEBUG] \<and>
   (\<exists>n. 1 \<le> n \<and> n \<le> (3::nat) \<and>
        lookups (snd (publish world_flaky ''p'' ''t'' (Str ''m'') (AttrDict []) 0)) =
          replicate n (GetTopic ''projects/p/topics/t'')) \<and>
   lookups (snd (publish world_flaky ''p'' ''t'' (Str ''m'') (AttrDict []) 0)) =
     [GetTopic ''projects/p/topics/t'', GetTopic ''projects/p/topics/t''] \<and>
   take 4 (snd (subscribe True world_missing ''p'' ''t'' ''s'')) =
     [Call (GetSubscription ''projects/p/subscriptions/s''),
      Call (CreateSubscription ''projects/p/subscriptions/s'' ''projects/p/topics/t''),
      Log DEBUG, Call (Subscribe ''projects/p/subscriptions/s'')] \<and>
   lookups (snd (subscribe True world_missing ''p'' ''t'' ''s'')) =
     [GetSubscription ''projects/p/subscriptions/s'']"
proof -
  note lag = creation_when_resource_missing
      [where w = world_lag and r = 0 and d = "''ds''" and t = "''tbl''" and sch = "[]"
         and res = "Inr True"
         and ev = "[Call (CreateTable ''ds'' ''tbl'' []),
            Call (GetTable ''ds'' ''tbl''), Sleep 5,
            Call (GetTable ''ds'' ''tbl''), Sleep 5,
            Call (GetTable ''ds'' ''tbl''), Log INFO]"
         and p = "''p''" and tn = "''t''" and m = "Str ''m''" and a = "AttrDict []"
         and data = "''m''" and attrs = "''{}''" and evp = "[]" and g = True and s = "''s''"]
  note missing = creation_when_resource_missing
      [where w = world_missing and r = 0 and d = "''ds''" and t = "''tbl''" and sch = "[]"
         and res = "Inr True" and ev = "[]"
         and p = "''p''" and tn = "''t''" and m = "Str ''m''" and a = "AttrDict []"
         and data = "''m''" and attrs = "''{}''" and evp = "[]" and g = True and s = "''s''"]
  note flaky = creation_when_resource_missing
      [where w = world_flaky and r = 0 and d = "''ds''" and t = "''tbl''" and sch = "[]"
         and res = "Inr True" and ev = "[]"
         and p = "''p''" and tn = "''t''" and m = "Str ''m''" and a = "AttrDict []"
         and data = "''m''" and attrs = "''{}''" and evp = "[]" and g = True and s = "''s''"]
  have c: "\<exists>n. raises world_lag 0 (Suc n) (GetTable ''ds'' ''tbl'') = None \<and>
        [Call (CreateTable ''ds'' ''tbl'' []),
         Call (GetTable ''ds'' ''tbl''), Sleep 5,
         Call (GetTable ''ds'' ''tbl''), Sleep 5,
         Call (GetTable ''ds'' ''tbl''), Log INFO] =
        Call (CreateTable ''ds'' ''tbl'' []) #
        concat (replicate n [Call (GetTable ''ds'' ''tbl''), Sleep 5]) @
        [Call (GetTable ''ds'' ''tbl''), Log INFO]"
    using lag [THEN conjunct1] createwait_table_world_lag
    by (simp add: world_lag_def world_ok_def)
  have p: "publish world_missing ''p'' ''t'' (Str ''m'') (AttrDict []) 0 =
     (Inr True,
      [Call (GetTopic ''projects/p/topics/t''), Call (CreateTopic ''projects/p/topics/t''),
       Log DEBUG, Call (Publish ''projects/p/topics/t'' ''m'' ''{}''), Log INFO])"
    using missing [THEN conjunct2, THEN conjunct2, THEN conjunct2, THEN conjunct2, THEN conjunct1]
    by (simp add: world_missing_raises world_missing_payload topic_path_def)
  have f1: "take 3 (snd (publish world_flaky ''p'' ''t'' (Str ''m'') (AttrDict []) 0)) =
     [Call (GetTopic ''projects/p/topics/t''), Call (CreateTopic ''projects/p/topics/t''),
      Log DEBUG]"
    using flaky [THEN conjunct2, THEN conjunct2, THEN conjunct2, THEN conjunct1]
    by (simp add: world_flaky_raises topic_path_def)
  have f2: "\<exists>n. 1 \<le> n \<and> n \<le> (3::nat) \<and>
        lookups (snd (publish world_flaky ''p'' ''t'' (Str ''m'') (AttrDict []) 0)) =
          replicate n (GetTopic ''projects/p/topics/t'')"
    using flaky [THEN conjunct2, THEN conjunct2, THEN conjunct2, THEN conjunct2, THEN conjunct2,
        THEN conjunct1]
    by (simp add: topic_path_def)
  have f3: "lookups (snd (publish world_flaky ''p'' ''t'' (Str ''m'') (AttrDict []) 0)) =
     [GetTopic ''projects/p/topics/t'', GetTopic ''projects/p/topics/t'']"
    by (simp add: publish_world_flaky)
  have s: "take 4 (snd (subscribe True world_missing ''p'' ''t'' ''s'')) =
     [Call (GetSubscription ''projects/p/subscriptions/s''),
      Call (CreateSubscription ''projects/p/subscriptions/s'' ''projects/p/topics/t''),
      Log DEBUG, Call (Subscribe ''projects/p/subscriptions/s'')] \<and>
     lookups (snd (subscribe True world_missing ''p'' ''t'' ''s'')) =
     [GetSubscription ''projects/p/subscriptions/s'']"
    using missing [THEN conjunct2, THEN conjunct2, THEN conjunct2, THEN conjunct2, THEN conjunct2,
        THEN conjunct2]
    by (simp add: world_missing_raises topic_path_def subscription_path_def)
  from createwait_table_world_lag c p f1 f2 f3 s show ?thesis by simp
qed

text \<open>
  The claim as stated fails for \<open>publish\<close>: with a topic that does not exist the lookup
  fails, the topic is created, and the message is published without a second lookup.
\<close>

theorem creation_when_resource_missing_counterexample:
  "publish world_missing ''p'' ''t'' (Str ''m'') (AttrDict []) 0 =
     (Inr True,
      [Call (GetTopic ''projects/p/topics/t''), Call (CreateTopic ''projects/p/topics/t''),
       Log DEBUG, Call (Publish ''projects/p/topics/t'' ''m'' ''{}''), Log INFO]) \<and>
   lookups (snd (publish world_missing ''p'' ''t'' (Str ''m'') (AttrDict []) 0)) =
     [GetTopic ''projects/p/topics/t'']"
proof -
  have "publish world_missing ''p'' ''t'' (Str ''m'') (AttrDict []) 0 =
     (Inr True,
      [Call (GetTopic (topic_path ''p'' ''t'')), Call (CreateTopic (topic_path ''p'' ''t'')),
       Log DEBUG] @ [] @
      [Call (Publish (topic_path ''p'' ''t'') ''m'' ''{}''), Log INFO])"
    by (rule publish_topic_created) (simp_all add: world_missing_raises world_missing_payload)
  then show ?thesis
    by (simp add: topic_path_def)
qed

section \<open>Waiting for a job\<close>

lemma wait_job_returns:
  assumes "raises w r k (JobResult j timeout) = None \<or>
           raises w r k (JobResult j timeout) = Some TimeoutError"
  shows "wait_job w r k j timeout =
     (Inr (j, job_errors w r j),
      Call (JobResult j timeout) #
      (if raises w r k (JobResult j timeout) = None then [] else [Log WARNING]) @ [Log INFO])"
  using assms by (auto simp: wait_job_def call_def)

lemma insert_file_waited:
  assumes "fst (load_table w r fp d t (job_name d t ''loadFile'' (uuid4 w r))) = Inr ()"
    and "raises w r 3 (JobResult (job_id_of w r (job_name d t ''loadFile'' (uuid4 w r))) timeout) = None \<or>
         raises w r 3 (JobResult (job_id_of w r (job_name d t ''loadFile'' (uuid4 w r))) timeout) =
           Some TimeoutError"
  shows "insert_file w timeout fp d t r =
     (Inr (Some (job_id_of w r (job_name d t ''loadFile'' (uuid4 w r))),
           job_errors w r (job_id_of w r (job_name d t ''loadFile'' (uuid4 w r)))),
      snd (load_table w r fp d t (job_name d t ''loadFile'' (uuid4 w r))) @
      Call (JobResult (job_id_of w r (job_name d t ''loadFile'' (uuid4 w r))) timeout) #
      (if raises w r 3 (JobResult (job_id_of w r (job_name d t ''loadFile'' (uuid4 w r))) timeout) = None
       then [] else [Log WARNING]) @ [Log INFO])"
proof -
  obtain ev where l: "load_table w r fp d t (job_name d t ''loadFile'' (uuid4 w r)) = (Inr (), ev)"
    using assms(1) by (cases "load_table w r fp d t (job_name d t ''loadFile'' (uuid4 w r))") auto
  have "insert_file_attempt w timeout fp d t r =
     (Inr (job_id_of w r (job_name d t ''loadFile'' (uuid4 w r)),
           job_errors w r (job_id_of w r (job_name d t ''loadFile'' (uuid4 w r)))),
      ev @
      Call (JobResult (job_id_of w r (job_name d t ''loadFile'' (uuid4 w r))) timeout) #
      (if raises w r 3 (JobResult (job_id_of w r (job_name d t ''loadFile'' (uuid4 w r))) timeout) = None
       then [] else [Log WARNING]) @ [Log INFO])"
    by (simp add: insert_file_attempt_def Let_def l seq_def wait_job_returns [OF assms(2)])
  then show ?thesis
    by (subst insert_file.simps) (simp add: l)
qed

lemma run_queryjob_waited:
  assumes "raises w r 0 (Query (job_name d t ''fromQuery'' (uuid4 w r)) q d t) = None"
    and "raises w r 1 (JobResult (job_name d t ''fromQuery'' (uuid4 w r)) timeout) = None \<or>
         raises w r 1 (JobResult (job_name d t ''fromQuery'' (uuid4 w r)) timeout) = Some TimeoutError"
  shows "run_queryjob w timeout d t q r =
     (Inr (Some (job_name d t ''fromQuery'' (uuid4 w r)),
           job_errors w r (job_name d t ''fromQuery'' (uuid4 w r))),
      Call (Query (job_name d t ''fromQuery'' (uuid4 w r)) q d t) #
      Call (JobResult (job_name d t ''fromQuery'' (uuid4 w r)) timeout) #
      (if raises w r 1 (JobResult (job_name d t ''fromQuery'' (uuid4 w r)) timeout) = None
       then [] else [Log WARNING]) @ [Log INFO])"
proof -
  have "run_queryjob_attempt w timeout d t q r =
     (Inr (job_name d t ''fromQuery'' (uuid4 w r),
           job_errors w r (job_name d t ''fromQuery'' (uuid4 w r))),
      Call (Query (job_name d t ''fromQuery'' (uuid4 w r)) q d t) #
      Call (JobResult (job_name d t ''fromQuery'' (uuid4 w r)) timeout) #
      (if raises w r 1 (JobResult (job_name d t ''fromQuery'' (uuid4 w r)) timeout) = None
       then [] else [Log WARNING]) @ [Log INFO])"
    using assms(1)
    by (simp add: run_queryjob_attempt_def Let_def seq_def call_def wait_job_returns [OF assms(2)]
          del: One_nat_def)
  then show ?thesis
    by (subst run_queryjob.simps) simp
qed

lemma run_extractjob_waited:
  assumes "raises w r 0 (ExtractTable d t u (job_name d t ''extractTable'' (uuid4 w r))) = None"
    and "raises w r 1 (JobResult (job_name d t ''extractTable'' (uuid4 w r)) timeout) = None \<or>
         raises w r 1 (JobResult (job_name d t ''extractTable'' (uuid4 w r)) timeout) = Some TimeoutError"
  shows "run_extractjob w timeout u d t r =
     (Inr (Some (job_name d t ''extractTable'' (uuid4 w r)),
           job_errors w r (job_name d t ''extractTable'' (uuid4 w r))),
      Call (ExtractTable d t u (job_name d t ''extractTable'' (uuid4 w r))) #
      Call (JobResult (job_name d t ''extractTable'' (uuid4 w r)) timeout) #
      (if raises w r 1 (JobResult (job_name d t ''extractTable'' (uuid4 w r)) timeout) = None
       then [] else [Log WARNING]) @ [Log INFO])"
proof -
  have "run_extractjob_attempt w timeout u d t r =
     (Inr (job_name d t ''extractTable'' (uuid4 w r),
           job_errors w r (job_name d t ''extractTable'' (uuid4 w r))),
      Call (ExtractTable d t u (job_name d t ''extractTable'' (uuid4 w r))) #
      Call (JobResult (job_name d t ''extractTable'' (uuid4 w r)) timeout) #
      (if raises w r 1 (JobResult (job_name d t ''extractTable'' (uuid4 w r)) timeout) = None
       then [] else [Log WARNING]) @ [Log INFO])"
    using assms(1)
    by (simp add: run_extractjob_attempt_def Let_def seq_def call_def wait_job_returns [OF assms(2)]
          del: One_nat_def)
  then show ?thesis
    by (subst run_extractjob.simps) simp
qed

text \<open>
  Claim C6. When the job was submitted and the wait for it either returns or runs into
  the timeout (\<open>TimeoutError\<close>), each of \<open>insert_file\<close>, \<open>run_queryjob\<close> and
  \<open>run_extractjob\<close> returns the job identifier, which is not \<open>None\<close>, paired with the
  job's error list: the same value in both cases. The only difference is the WARNING
  line that the timeout adds to the trace; there is no retry and no sleep.
\<close>

theorem job_wait_timeout_is_not_a_failure:
  "(fst (load_table w r fp d t (job_name d t ''loadFile'' (uuid4 w r))) = Inr () \<and>
    (raises w r 3 (JobResult (job_id_of w r (job_name d t ''loadFile'' (uuid4 w r))) timeout) = None \<or>
     raises w r 3 (JobResult (job_id_of w r (job_name d t ''loadFile'' (uuid4 w r))) timeout) =
       Some TimeoutError) \<longrightarrow>
      insert_file w timeout fp d t r =
        (Inr (Some (job_id_of w r (job_name d t ''loadFile'' (uuid4 w r))),
              job_errors w r (job_id_of w r (job_name d t ''loadFile'' (uuid4 w r)))),
         snd (load_table w r fp d t (job_name d t ''loadFile'' (uuid4 w r))) @
         Call (JobResult (job_id_of w r (job_name d t ''loadFile'' (uuid4 w r))) timeout) #
         (if raises w r 3 (JobResult (job_id_of w r (job_name d t ''loadFile'' (uuid4 w r))) timeout) = None
          then [] else [Log WARNING]) @ [Log INFO])) \<and>
   (raises w r 0 (Query (job_name d t ''fromQuery'' (uuid4 w r)) q d t) = None \<and>
    (raises w r 1 (JobResult (job_name d t ''fromQuery'' (uuid4 w r)) timeout) = None \<or>
     raises w r 1 (JobResult (job_name d t ''fromQuery'' (uuid4 w r)) timeout) = Some TimeoutError) \<longrightarrow>
      run_queryjob w timeout d t q r =
        (Inr (Some (job_name d t ''fromQuery'' (uuid4 w r)),
              job_errors w r (job_name d t ''fromQuery'' (uuid4 w r))),
         Call (Query (job_name d t ''fromQuery'' (uuid4 w r)) q d t) #
         Call (JobResult (job_name d t ''fromQuery'' (uuid4 w r)) timeout) #
         (if raises w r 1 (JobResult (job_name d t ''fromQuery'' (uuid4 w r)) timeout) = None
          then [] else [Log WARNING]) @ [Log INFO])) \<and>
   (raises w r 0 (ExtractTable d t u (job_name d t ''extractTable'' (uuid4 w r))) = None \<and>
    (raises w r 1 (JobResult (job_name d t ''extractTable'' (uuid4 w r)) timeout) = None \<or>
     raises w r 1 (JobResult (job_name d t ''extractTable'' (uuid4 w r)) timeout) = Some TimeoutError) \<longrightarrow>
      run_extractjob w timeout u d t r =
        (Inr (Some (job_name d t ''extractTable'' (uuid4 w r)),
              job_errors w r (job_name d t ''extractTable'' (uuid4 w r))),
         Call (ExtractTable d t u (job_name d t ''extractTable'' (uuid4 w r))) #
         Call (JobResult (job_name d t ''extractTable'' (uuid4 w r)) timeout) #
         (if raises w r 1 (JobResult (job_name d t ''extractTable'' (uuid4 w r)) timeout) = None
          then [] else [Log WARNING]) @ [Log INFO]))"
  by (intro conjI impI; elim conjE;
      erule (1) insert_file_waited run_queryjob_waited run_extractjob_waited)

theorem job_wait_timeout_is_not_a_failure_witness:
  "insert_file world_timeout 180 ''gs://b/f'' ''ds'' ''tbl'' 0 =
     (Inr (Some ''ds_tbl_loadFile-u'', None),
      [Call (LoadTableFromUri ''gs://b/f'' ''ds'' ''tbl'' ''ds_tbl_loadFile-u''),
       Call (JobResult ''ds_tbl_loadFile-u'' 180), Log WARNING, Log INFO]) \<and>
   insert_file world_ok 180 ''gs://b/f'' ''ds'' ''tbl'' 0 =
     (Inr (Some ''ds_tbl_loadFile-u'', None),
      [Call (LoadTableFromUri ''gs://b/f'' ''ds'' ''tbl'' ''ds_tbl_loadFile-u''),
       Call (JobResult ''ds_tbl_loadFile-u'' 180), Log INFO]) \<and>
   run_queryjob world_timeout 180 ''ds'' ''tbl'' ''SELECT 1'' 0 =
     (Inr (Some ''ds_tbl_fromQuery-u'', None),
      [Call (Query ''ds_tbl_fromQuery-u'' ''SELECT 1'' ''ds'' ''tbl''),
       Call (JobResult ''ds_tbl_fromQuery-u'' 180), Log WARNING, Log INFO]) \<and>
   run_extractjob world_timeout 180 ''gs://b/f'' ''ds'' ''tbl'' 0 =
     (Inr (Some ''ds_tbl_extractTable-u'', None),
      [Call (ExtractTable ''ds'' ''tbl'' ''gs://b/f'' ''ds_tbl_extractTable-u''),
       Call (JobResult ''ds_tbl_extractTable-u'' 180), Log WARNING, Log INFO])"
proof -
  note slow = job_wait_timeout_is_not_a_failure [where w = world_timeout and r = 0
      and fp = "''gs://b/f''" and d = "''ds''" and t = "''tbl''" and timeout = 180
      and q = "''SELECT 1''" and u = "''gs://b/f''"]
  note fast = job_wait_timeout_is_not_a_failure [where w = world_ok and r = 0
      and fp = "''gs://b/f''" and d = "''ds''" and t = "''tbl''" and timeout = 180]
  have "insert_file world_timeout 180 ''gs://b/f'' ''ds'' ''tbl'' 0 =
     (Inr (Some ''ds_tbl_loadFile-u'', None),
      [Call (LoadTableFromUri ''gs://b/f'' ''ds'' ''tbl'' ''ds_tbl_loadFile-u''),
       Call (JobResult ''ds_tbl_loadFile-u'' 180), Log WARNING, Log INFO])"
    using slow [THEN conjunct1]
    by (simp add: world_timeout_def world_ok_def job_name_def load_table_def call_def)
  moreover have "insert_file world_ok 180 ''gs://b/f'' ''ds'' ''tbl'' 0 =
     (Inr (Some ''ds_tbl_loadFile-u'', None),
      [Call (LoadTableFromUri ''gs://b/f'' ''ds'' ''tbl'' ''ds_tbl_loadFile-u''),
       Call (JobResult ''ds_tbl_loadFile-u'' 180), Log INFO])"
    using fast [THEN conjunct1]
    by (simp add: world_ok_def job_name_def load_table_def call_def)
  moreover have "run_queryjob world_timeout 180 ''ds'' ''tbl'' ''SELECT 1'' 0 =
     (Inr (Some ''ds_tbl_fromQuery-u'', None),
      [Call (Query ''ds_tbl_fromQuery-u'' ''SELECT 1'' ''ds'' ''tbl''),
       Call (JobResult ''ds_tbl_fromQuery-u'' 180), Log WARNING, Log INFO])"
    using slow [THEN conjunct2, THEN conjunct1]
    by (simp add: world_timeout_def world_ok_def job_name_def)
  moreover have "run_extractjob world_timeout 180 ''gs://b/f'' ''ds'' ''tbl'' 0 =
     (Inr (Some ''ds_tbl_extractTable-u'', None),
      [Call (ExtractTable ''ds'' ''tbl'' ''gs://b/f'' ''ds_tbl_extractTable-u''),
       Call (JobResult ''ds_tbl_extractTable-u'' 180), Log WARNING, Log INFO])"
    using slow [THEN conjunct2, THEN conjunct2]
    by (simp add: world_timeout_def world_ok_def job_name_def)
  ultimately show ?thesis by simp
qed

section \<open>Two places where the code misses what it sets out to do\<close>

text \<open>
  Claim C8 against the code. On the interpreter the module needs (Python 3: it uses
  f-strings) the name \<open>unicode\<close> is not defined. For the nested map of the claim the
  first value is a \<open>str\<close> and gives the field \<open>a\<close>; the second is a dictionary, so the
  test goes on to read \<open>unicode\<close>, which raises \<open>NameError\<close>; the handler logs at ERROR and
  returns the one field built so far. Only with the name bound does the function return
  the two fields of the claim.
\<close>

theorem build_schema_from_dict_nested:
  "build_schema_from_dict False
     (PDict [(''a'', PStr ''STRING''), (''b'', PDict [(''c'', PStr ''INTEGER'')])]) ''NULLABLE'' =
     (Inr [SchemaField ''a'' ''STRING'' ''NULLABLE'' []], [Log ERROR]) \<and>
   build_schema_from_dict True
     (PDict [(''a'', PStr ''STRING''), (''b'', PDict [(''c'', PStr ''INTEGER'')])]) ''NULLABLE'' =
     (Inr [SchemaField ''a'' ''STRING'' ''NULLABLE'' [],
           SchemaField ''b'' ''RECORD'' ''NULLABLE''
             [SchemaField ''c'' ''INTEGER'' ''NULLABLE'' []]],
      [Log INFO, Log INFO])"
  by (simp add: build_schema_from_dict.simps)

text \<open>
  Claim C9 against the code. Called from a module that imports the subscriber, with a
  subscription that does not exist yet, \<open>subscribe\<close> raises \<open>NameError\<close> in the handler of
  the failed lookup: nothing is created and the receive loop is never entered. With the
  name bound the subscription is created, bound to the topic, and the call blocks.
\<close>

theorem subscribe_creates_subscription:
  "subscribe False world_missing ''p'' ''t'' ''s'' =
     (Raises NameError, [Call (GetSubscription ''projects/p/subscriptions/s'')]) \<and>
   subscribe True world_missing ''p'' ''t'' ''s'' =
     (BlocksForever,
      [Call (GetSubscription ''projects/p/subscriptions/s''),
       Call (CreateSubscription ''projects/p/subscriptions/s'' ''projects/p/topics/t''),
       Log DEBUG, Call (Subscribe ''projects/p/subscriptions/s''), Call FutureResult]) \<and>
   subscribe False world_ok ''p'' ''t'' ''s'' =
     (BlocksForever,
      [Call (GetSubscription ''projects/p/subscriptions/s''), Log DEBUG,
       Call (Subscribe ''projects/p/subscriptions/s''), Call FutureResult])"
  by (simp add: subscribe_def ensure_subscription_def call_def Let_def subscription_path_def
        topic_path_def world_missing_def world_ok_def)

section \<open>No error reaches the caller\<close>


lemma resolves_sentinel [simp]: "resolves attempt wrap sentinel r (Inr sentinel, ev)"
  by (simp add: resolves_def)

lemma resolves_raised [simp]:
  "resolves attempt wrap sentinel r (Inl e, ev) = (\<not> is_Exception e)"
  by (simp add: resolves_def)



























section \<open>Further properties of the code\<close>

lemma upload_file_to_gs_NotFound_retry:
  assumes "fst (upload_file_to_gs_attempt w localPath gsPath delete r) = Inl NotFound" and "r < 3"
  shows "upload_file_to_gs w localPath gsPath delete r =
     (fst (upload_file_to_gs w localPath gsPath delete (Suc r)),
      snd (upload_file_to_gs_attempt w localPath gsPath delete r) @ [Log WARNING, Sleep 3] @
      snd (upload_file_to_gs w localPath gsPath delete (Suc r)))"
  using assms
  by (subst upload_file_to_gs.simps)
     (cases "upload_file_to_gs_attempt w localPath gsPath delete r", simp split: prod.splits)

lemma upload_file_to_gs_NotFound_last:
  assumes "fst (upload_file_to_gs_attempt w localPath gsPath delete r) = Inl NotFound" and "\<not> r < 3"
  shows "upload_file_to_gs w localPath gsPath delete r =
     (Inr False, snd (upload_file_to_gs_attempt w localPath gsPath delete r) @ [Log ERROR])"
  using assms
  by (subst upload_file_to_gs.simps)
     (cases "upload_file_to_gs_attempt w localPath gsPath delete r", simp split: prod.splits)

text \<open>
  Beyond the claims: \<open>upload_file_to_gs\<close> has no handler for \<open>NotFound\<close>. When every
  attempt of a fresh call raises \<open>NotFound\<close> (the bucket does not exist), the call makes
  all four attempts, sleeps 3 seconds three times, and returns \<open>False\<close>.
\<close>

theorem upload_not_found_is_retried:
  "(\<forall>r\<le>3. fst (upload_file_to_gs_attempt w localPath gsPath delete r) = Inl NotFound) \<longrightarrow>
     upload_file_to_gs w localPath gsPath delete 0 =
       (Inr False,
        exhausted (\<lambda>r. snd (upload_file_to_gs_attempt w localPath gsPath delete r)) 3
          [Log WARNING, Sleep 3])"
proof
  assume a: "\<forall>r\<le>3. fst (upload_file_to_gs_attempt w localPath gsPath delete r) = Inl NotFound"
  have f: "fst (upload_file_to_gs_attempt w localPath gsPath delete 0) = Inl NotFound"
    "fst (upload_file_to_gs_attempt w localPath gsPath delete (Suc 0)) = Inl NotFound"
    "fst (upload_file_to_gs_attempt w localPath gsPath delete (Suc (Suc 0))) = Inl NotFound"
    "fst (upload_file_to_gs_attempt w localPath gsPath delete (Suc (Suc (Suc 0)))) = Inl NotFound"
    using a by simp_all
  show "upload_file_to_gs w localPath gsPath delete 0 =
       (Inr False,
        exhausted (\<lambda>r. snd (upload_file_to_gs_attempt w localPath gsPath delete r)) 3
          [Log WARNING, Sleep 3])"
    by (simp add: exhausted_def upload_file_to_gs_NotFound_retry upload_file_to_gs_NotFound_last f
          numeral_3_eq_3 numeral_2_eq_2)
qed

theorem upload_not_found_is_retried_witness:
  "upload_file_to_gs world_notfound ''/tmp/f'' ''gs://b/f'' False 0 =
     (Inr False,
      [Call (GetBucket ''b''), Log WARNING, Sleep 3, Call (GetBucket ''b''), Log WARNING, Sleep 3,
       Call (GetBucket ''b''), Log WARNING, Sleep 3, Call (GetBucket ''b''), Log ERROR])"
  using upload_not_found_is_retried
    [where w = world_notfound and localPath = "''/tmp/f''" and gsPath = "''gs://b/f''"
       and delete = False]
  by (simp add: upload_notfound exhausted_def numeral_3_eq_3 numeral_2_eq_2)

text \<open>
  Beyond the claims: on Python 3 (the name \<open>unicode\<close> unbound) \<open>build_schema_from_dict\<close>
  builds one field for each leading item whose value is a \<open>str\<close> and stops at the first
  value that is not one, with an ERROR line; only a map of \<open>str\<close> values alone is
  converted whole, with an INFO line.
\<close>

fun is_PStr :: "pyval \<Rightarrow> bool" where
  "is_PStr (PStr _) = True"
| "is_PStr _ = False"

fun str_field :: "string \<Rightarrow> string \<times> pyval \<Rightarrow> schema_field" where
  "str_field mode_fields (k, PStr t) = SchemaField k t mode_fields []"
| "str_field mode_fields (k, _) = SchemaField k [] mode_fields []"

lemma schema_items_python3:
  "schema_items False items mode_fields schema_bq =
     (if list_all (\<lambda>kv. is_PStr (snd kv)) items then None else Some NameError,
      schema_bq @ map (str_field mode_fields) (takeWhile (\<lambda>kv. is_PStr (snd kv)) items),
      [])"
proof (induction items arbitrary: schema_bq)
  case Nil
  show ?case by (simp add: build_schema_from_dict.simps)
next
  case (Cons kv items)
  obtain k v where kv: "kv = (k, v)" by (cases kv)
  show ?case
    unfolding kv by (cases v) (simp_all add: build_schema_from_dict.simps Cons.IH)
qed

theorem build_schema_from_dict_python3:
  "build_schema_from_dict False (PDict items) mode_fields =
     (Inr (map (str_field mode_fields) (takeWhile (\<lambda>kv. is_PStr (snd kv)) items)),
      [if list_all (\<lambda>kv. is_PStr (snd kv)) items then Log INFO else Log ERROR])"
  by (subst build_schema_from_dict.simps) (simp add: schema_items_python3)

end
